theory Spec2Isabelle
  imports Complex_Main "HOL-Library.Log_Nat" "HOL-Library.Char_ord" "HOL-Library.List_Lexorder"
    "HOL-Library.Multiset"
begin

section \<open>Python values used by the study-schedule tools\<close>

text \<open>
  The development embeds three functions of the repository:
  \<^verbatim>\<open>CalendarOptimizer._generate_optimized_blocks\<close> and
  \<^verbatim>\<open>CalendarOptimizer._calculate_free_time_blocks\<close> (calendar_optmizer.py) and
  \<^verbatim>\<open>GmailAnalyzer._analyze_email_content\<close> (gmail_analyzer.py), with the helpers they call.

  Conventions. Python \<^verbatim>\<open>int\<close> is \<^typ>\<open>int\<close>. A Python \<^verbatim>\<open>str\<close> is a \<^typ>\<open>string\<close> of
  ASCII characters; \<^verbatim>\<open>str.lower\<close> maps \<^verbatim>\<open>A-Z\<close> to \<^verbatim>\<open>a-z\<close> and leaves every other
  character alone. An exception is a value of \<open>py_error\<close> on the left of a sum. A dictionary
  with optional keys is a record of options (\<open>None\<close> for an absent key). Whatever the code reads
  from the clock or parses with the standard library (\<^verbatim>\<open>datetime.now\<close>,
  \<^verbatim>\<open>datetime.fromisoformat\<close>, \<^verbatim>\<open>datetime.fromtimestamp\<close>) is a parameter of the model.
\<close>

datatype py_error = ValueError | OverflowError | TypeError

subsection \<open>Binary floating point\<close>

text \<open>
  A finite Python \<^verbatim>\<open>float\<close> is the rational number it denotes. \<open>round_double\<close> rounds an
  exact rational result to the nearest number with a 53-bit significand, ties to even, which is
  what every IEEE 754 binary64 operation does (exponents below the subnormal threshold share the
  spacing \<open>2^-1074\<close>). Literals such as \<^verbatim>\<open>0.9\<close> are the rounding of their decimal value.
  Overflow is checked where it can happen, at the conversion of an \<^verbatim>\<open>int\<close>: every product
  below has a factor of magnitude at most one.
\<close>

type_synonym pyfloat = rat

definition pow2 :: "int \<Rightarrow> rat" where
  "pow2 k = (if 0 \<le> k then 2 ^ nat k else 1 / 2 ^ nat (- k))"

definition round_half_even :: "rat \<Rightarrow> int" where
  "round_half_even x =
     (let f = \<lfloor>x\<rfloor>; r = x - of_int f
      in if r < 1 / 2 then f else if 1 / 2 < r then f + 1 else if even f then f else f + 1)"

definition binade :: "rat \<Rightarrow> int" where
  "binade x =
     (let (p, q) = quotient_of x; k = bitlen p - bitlen q
      in if pow2 k \<le> x then k else k - 1)"

definition round_double :: "rat \<Rightarrow> pyfloat" where
  "round_double x =
     (if x = 0 then 0
      else let s = pow2 (max (binade \<bar>x\<bar> - 52) (- 1074))
           in of_int (round_half_even (x / s)) * s)"

definition py_float_of_int :: "int \<Rightarrow> py_error + pyfloat" where
  "py_float_of_int n =
     (let r = round_double (of_int n)
      in if 2 ^ 1024 \<le> \<bar>r\<bar> then Inl OverflowError else Inr r)"

definition py_float_mul :: "pyfloat \<Rightarrow> pyfloat \<Rightarrow> pyfloat" where
  "py_float_mul a b = round_double (a * b)"

definition py_float_div :: "pyfloat \<Rightarrow> pyfloat \<Rightarrow> pyfloat" where
  "py_float_div a b = round_double (a / b)"

definition py_int_of_float :: "pyfloat \<Rightarrow> int" where
  "py_int_of_float x = (if 0 \<le> x then \<lfloor>x\<rfloor> else \<lceil>x\<rceil>)"

definition float_1_0 :: pyfloat where "float_1_0 = round_double 1"
definition float_0_9 :: pyfloat where "float_0_9 = round_double (9 / 10)"
definition float_0_8 :: pyfloat where "float_0_8 = round_double (8 / 10)"
definition float_0_7 :: pyfloat where "float_0_7 = round_double (7 / 10)"
definition float_0_6 :: pyfloat where "float_0_6 = round_double (6 / 10)"
definition float_0_5 :: pyfloat where "float_0_5 = round_double (5 / 10)"
definition float_0_25 :: pyfloat where "float_0_25 = round_double (25 / 100)"

subsection \<open>Strings\<close>

definition upper_lower :: "(char \<times> char) list" where
  "upper_lower =
     [(CHR ''A'', CHR ''a''), (CHR ''B'', CHR ''b''), (CHR ''C'', CHR ''c''), (CHR ''D'', CHR ''d''),
      (CHR ''E'', CHR ''e''), (CHR ''F'', CHR ''f''), (CHR ''G'', CHR ''g''), (CHR ''H'', CHR ''h''),
      (CHR ''I'', CHR ''i''), (CHR ''J'', CHR ''j''), (CHR ''K'', CHR ''k''), (CHR ''L'', CHR ''l''),
      (CHR ''M'', CHR ''m''), (CHR ''N'', CHR ''n''), (CHR ''O'', CHR ''o''), (CHR ''P'', CHR ''p''),
      (CHR ''Q'', CHR ''q''), (CHR ''R'', CHR ''r''), (CHR ''S'', CHR ''s''), (CHR ''T'', CHR ''t''),
      (CHR ''U'', CHR ''u''), (CHR ''V'', CHR ''v''), (CHR ''W'', CHR ''w''), (CHR ''X'', CHR ''x''),
      (CHR ''Y'', CHR ''y''), (CHR ''Z'', CHR ''z'')]"

definition lower_char :: "char \<Rightarrow> char" where
  "lower_char c = (case map_of upper_lower c of Some l \<Rightarrow> l | None \<Rightarrow> c)"

definition lower :: "string \<Rightarrow> string" where
  "lower s = map lower_char s"

text \<open>\<^verbatim>\<open>needle in haystack\<close> on strings: the needle occurs as a contiguous piece.\<close>

fun starts_with :: "string \<Rightarrow> string \<Rightarrow> bool" where
  "starts_with [] s = True"
| "starts_with (c # cs) [] = False"
| "starts_with (c # cs) (d # ds) = (c = d \<and> starts_with cs ds)"

fun str_in :: "string \<Rightarrow> string \<Rightarrow> bool" where
  "str_in needle [] = (needle = [])"
| "str_in needle (d # ds) = (starts_with needle (d # ds) \<or> str_in needle ds)"

definition digits :: "(char \<times> nat) list" where
  "digits =
     [(CHR ''0'', 0), (CHR ''1'', 1), (CHR ''2'', 2), (CHR ''3'', 3), (CHR ''4'', 4),
      (CHR ''5'', 5), (CHR ''6'', 6), (CHR ''7'', 7), (CHR ''8'', 8), (CHR ''9'', 9)]"

definition digit_val :: "char \<Rightarrow> nat option" where
  "digit_val c = map_of digits c"

definition digit_char :: "nat \<Rightarrow> char" where
  "digit_char d = fst (digits ! d)"

text \<open>The format \<^verbatim>\<open>%02d\<close> (or \<^verbatim>\<open>:02d\<close>) on a number below one hundred.\<close>

definition two_digits :: "nat \<Rightarrow> string" where
  "two_digits n = [digit_char (n div 10), digit_char (n mod 10)]"

subsection \<open>Clock times\<close>

text \<open>
  \<^verbatim>\<open>datetime.strptime(s, '%H:%M')\<close>: the standard library matches the regular expression
  \<^verbatim>\<open>(2[0-3]|[0-1]\d|\d):([0-5]\d|\d)\<close> at the start of \<open>s\<close>, preferring the two-digit
  alternatives, and raises \<^verbatim>\<open>ValueError\<close> when nothing matches or when text remains after
  the match. \<open>None\<close> is that error.
\<close>

fun parse_hour :: "string \<Rightarrow> (nat \<times> string) option" where
  "parse_hour (a # b # rest) =
     (case (digit_val a, digit_val b) of
        (Some x, Some y) \<Rightarrow>
          if (x = 2 \<and> y \<le> 3) \<or> x \<le> 1 then Some (10 * x + y, rest) else Some (x, b # rest)
      | (Some x, None) \<Rightarrow> Some (x, b # rest)
      | _ \<Rightarrow> None)"
| "parse_hour [a] = (case digit_val a of Some x \<Rightarrow> Some (x, []) | None \<Rightarrow> None)"
| "parse_hour [] = None"

fun parse_minute :: "string \<Rightarrow> (nat \<times> string) option" where
  "parse_minute (a # b # rest) =
     (case (digit_val a, digit_val b) of
        (Some x, Some y) \<Rightarrow> if x \<le> 5 then Some (10 * x + y, rest) else Some (x, b # rest)
      | (Some x, None) \<Rightarrow> Some (x, b # rest)
      | _ \<Rightarrow> None)"
| "parse_minute [a] = (case digit_val a of Some x \<Rightarrow> Some (x, []) | None \<Rightarrow> None)"
| "parse_minute [] = None"

definition strptime_HM :: "string \<Rightarrow> (nat \<times> nat) option" where
  "strptime_HM s =
     (case parse_hour s of
        None \<Rightarrow> None
      | Some (h, rest) \<Rightarrow>
          (case rest of
             [] \<Rightarrow> None
           | c # rest' \<Rightarrow>
               if c = CHR '':'' then
                 (case parse_minute rest' of
                    Some (m, []) \<Rightarrow> Some (h, m)
                  | _ \<Rightarrow> None)
               else None))"

text \<open>
  In the scheduler every \<^verbatim>\<open>datetime\<close> has zero seconds, so it is the number of minutes since
  0001-01-01 00:00; \<open>today\<close> is the number of days from 0001-01-01 to \<^verbatim>\<open>datetime.now().date()\<close>.
  \<^verbatim>\<open>datetime\<close> ends with the year 9999, 3652059 days after it starts, and adding a
  \<^verbatim>\<open>timedelta\<close> that leaves the range raises \<^verbatim>\<open>OverflowError\<close> (as does building a
  \<^verbatim>\<open>timedelta\<close> too large to exist, which always leaves the range).
\<close>

definition datetime_combine :: "int \<Rightarrow> nat \<times> nat \<Rightarrow> int" where
  "datetime_combine today hm = today * 1440 + int (fst hm) * 60 + int (snd hm)"

definition datetime_max_minutes :: int where
  "datetime_max_minutes = 3652059 * 1440"

definition datetime_add_minutes :: "int \<Rightarrow> int \<Rightarrow> py_error + int" where
  "datetime_add_minutes t n =
     (if 0 \<le> t + n \<and> t + n < datetime_max_minutes then Inr (t + n) else Inl OverflowError)"

definition hour_of :: "int \<Rightarrow> int" where
  "hour_of t = (t mod 1440) div 60"

definition minute_of :: "int \<Rightarrow> int" where
  "minute_of t = t mod 60"

definition strftime_HM :: "int \<Rightarrow> string" where
  "strftime_HM t = two_digits (nat (hour_of t)) @ '':'' @ two_digits (nat (minute_of t))"

section \<open>CalendarOptimizer: the block scheduler\<close>

subsection \<open>Subject difficulty and ordering\<close>

text \<open>
  \<^verbatim>\<open>_order_subjects_by_difficulty\<close> and \<^verbatim>\<open>_get_subject_difficulty\<close> each hold their own
  copy of the same table.
\<close>

definition difficulty_map :: "(string \<times> int) list" where
  "difficulty_map =
     [(''math'', 9), (''mathematics'', 9), (''calculus'', 9), (''algebra'', 8),
      (''physics'', 8), (''chemistry'', 7), (''biology'', 6),
      (''computer science'', 8), (''programming'', 8), (''algorithms'', 9),
      (''english'', 5), (''literature'', 5), (''history'', 6),
      (''psychology'', 6), (''sociology'', 5), (''philosophy'', 7)]"

definition get_subject_difficulty :: "string \<Rightarrow> int" where
  "get_subject_difficulty subject =
     (case map_of difficulty_map (lower subject) of Some d \<Rightarrow> d | None \<Rightarrow> 5)"

text \<open>
  \<^verbatim>\<open>sorted(xs, key=f, reverse=True)\<close>: CPython reverses the list, sorts it stably in
  ascending key order and reverses the result.
\<close>

definition sorted_reverse :: "('a \<Rightarrow> int) \<Rightarrow> 'a list \<Rightarrow> 'a list" where
  "sorted_reverse f xs = rev (sort_key f (rev xs))"

definition order_subjects_by_difficulty :: "string list \<Rightarrow> string list" where
  "order_subjects_by_difficulty subjects =
     (let subjects_with_difficulty =
            map (\<lambda>subject. (subject, case map_of difficulty_map (lower subject) of
                                         Some d \<Rightarrow> d | None \<Rightarrow> 5)) subjects
      in map fst (sorted_reverse snd subjects_with_difficulty))"

subsection \<open>Durations, breaks and flags\<close>

text \<open>The band chain at the head of \<^verbatim>\<open>_adjust_duration_for_time_and_subject\<close>.\<close>

definition duration_multiplier :: "int \<Rightarrow> pyfloat" where
  "duration_multiplier hour =
     (if (9 \<le> hour \<and> hour \<le> 11) \<or> (15 \<le> hour \<and> hour \<le> 17) then float_1_0
      else if (11 \<le> hour \<and> hour \<le> 15) \<or> (17 \<le> hour \<and> hour \<le> 20) then float_0_9
      else float_0_8)"

definition adjust_duration_for_time_and_subject :: "int \<Rightarrow> string \<Rightarrow> int \<Rightarrow> py_error + int" where
  "adjust_duration_for_time_and_subject time subject base_duration =
     (let hour = hour_of time;
          multiplier = duration_multiplier hour;
          difficulty = get_subject_difficulty subject;
          multiplier = (if difficulty \<ge> 8
                        then (if hour < 12 then multiplier else py_float_mul multiplier float_0_9)
                        else multiplier)
      in case py_float_of_int base_duration of
           Inl e \<Rightarrow> Inl e
         | Inr b \<Rightarrow> Inr (py_int_of_float (py_float_mul b multiplier)))"

definition is_optimal_time_for_subject :: "int \<Rightarrow> string \<Rightarrow> bool" where
  "is_optimal_time_for_subject time subject =
     (let hour = hour_of time; difficulty = get_subject_difficulty subject
      in if difficulty \<ge> 7 then (9 \<le> hour \<and> hour \<le> 12) \<or> (15 \<le> hour \<and> hour \<le> 17)
         else hour \<ge> 9 \<and> hour \<le> 20)"

definition adjust_break_duration :: "int \<Rightarrow> int \<Rightarrow> int" where
  "adjust_break_duration base_break study_duration =
     (if study_duration \<ge> 90 then min (base_break + 5) 20 else base_break)"

definition suggest_break_activity :: "int \<Rightarrow> string" where
  "suggest_break_activity break_duration =
     (if break_duration \<le> 10 then ''Deep breathing or stretching''
      else if break_duration \<le> 20 then ''Short walk or hydration''
      else ''Physical exercise or snack'')"

subsection \<open>Blocks and the placement loop\<close>

datatype block_type = Study | Break

record block =
  b_subject :: string
  b_start_time :: string
  b_end_time :: string
  b_type :: block_type
  b_duration :: int
  b_difficulty :: "int option"
  b_optimal_time :: "bool option"
  b_activity :: "string option"

record preferences =
  p_study_duration :: "int option"
  p_break_duration :: "int option"
  p_subjects :: "string list option"
  p_start_time :: "string option"
  p_end_time :: "string option"

text \<open>The local variables of the loop in \<^verbatim>\<open>_generate_optimized_blocks\<close>.\<close>

record loop_state =
  current_datetime :: int
  blocks :: "block list"
  study_total :: int
  break_total :: int

text \<open>
  The returned dictionary. Its remaining entries (the two scores, the rating and the notes)
  are floating-point and text summaries computed from these three after the loop; they change
  neither the blocks nor the totals and are left out.
\<close>

record schedule =
  study_blocks :: "block list"
  total_study_time :: int
  total_break_time :: int

text \<open>
  One pass of the loop body. \<open>more_subjects\<close> is the test
  \<^verbatim>\<open>i < len(difficulty_order) - 1\<close>.
\<close>

definition place_subject :: "int \<Rightarrow> int \<Rightarrow> bool \<Rightarrow> string \<Rightarrow> loop_state \<Rightarrow> py_error + loop_state" where
  "place_subject study_duration break_duration more_subjects subject st =
     (case adjust_duration_for_time_and_subject (current_datetime st) subject study_duration of
        Inl e \<Rightarrow> Inl e
      | Inr adjusted_duration \<Rightarrow>
          (case datetime_add_minutes (current_datetime st) adjusted_duration of
             Inl e \<Rightarrow> Inl e
           | Inr end_datetime \<Rightarrow>
               (let st1 = \<lparr>current_datetime = end_datetime,
                           blocks = blocks st @
                             [\<lparr>b_subject = subject,
                               b_start_time = strftime_HM (current_datetime st),
                               b_end_time = strftime_HM end_datetime,
                               b_type = Study,
                               b_duration = adjusted_duration,
                               b_difficulty = Some (get_subject_difficulty subject),
                               b_optimal_time =
                                 Some (is_optimal_time_for_subject (current_datetime st) subject),
                               b_activity = None\<rparr>],
                           study_total = study_total st + adjusted_duration,
                           break_total = break_total st\<rparr>
                in if more_subjects then
                     (let adjusted_break = adjust_break_duration break_duration adjusted_duration
                      in case datetime_add_minutes end_datetime adjusted_break of
                           Inl e \<Rightarrow> Inl e
                         | Inr break_end \<Rightarrow>
                             Inr \<lparr>current_datetime = break_end,
                                  blocks = blocks st1 @
                                    [\<lparr>b_subject = ''Break'',
                                      b_start_time = strftime_HM end_datetime,
                                      b_end_time = strftime_HM break_end,
                                      b_type = Break,
                                      b_duration = adjusted_break,
                                      b_difficulty = None,
                                      b_optimal_time = None,
                                      b_activity = Some (suggest_break_activity adjusted_break)\<rparr>],
                                  study_total = study_total st1,
                                  break_total = break_total st1 + adjusted_break\<rparr>)
                   else Inr st1)))"

fun place_all :: "int \<Rightarrow> int \<Rightarrow> string list \<Rightarrow> loop_state \<Rightarrow> py_error + loop_state" where
  "place_all study_duration break_duration [] st = Inr st"
| "place_all study_duration break_duration (subject # rest) st =
     (case place_subject study_duration break_duration (rest \<noteq> []) subject st of
        Inl e \<Rightarrow> Inl e
      | Inr st' \<Rightarrow> place_all study_duration break_duration rest st')"

definition default_subjects :: "string list" where
  "default_subjects = [''Math'', ''Physics'', ''Chemistry'', ''English'']"

definition requested_subjects :: "preferences \<Rightarrow> string list" where
  "requested_subjects preferences =
     (case p_subjects preferences of Some s \<Rightarrow> s | None \<Rightarrow> default_subjects)"

definition requested_start_time :: "preferences \<Rightarrow> string" where
  "requested_start_time preferences =
     (case p_start_time preferences of Some s \<Rightarrow> s | None \<Rightarrow> ''09:00'')"

text \<open>
  \<^verbatim>\<open>_generate_optimized_blocks\<close>. Its second argument \<^verbatim>\<open>existing_events\<close> is never read
  and is not an argument here.
\<close>

definition generate_optimized_blocks :: "int \<Rightarrow> preferences \<Rightarrow> py_error + schedule" where
  "generate_optimized_blocks today preferences =
     (let study_duration = (case p_study_duration preferences of Some d \<Rightarrow> d | None \<Rightarrow> 90);
          break_duration = (case p_break_duration preferences of Some d \<Rightarrow> d | None \<Rightarrow> 15);
          subjects = requested_subjects preferences;
          start_time_str = requested_start_time preferences
      in case strptime_HM start_time_str of
           None \<Rightarrow> Inl ValueError
         | Some start_time \<Rightarrow>
             (let difficulty_order = order_subjects_by_difficulty subjects
              in case place_all study_duration break_duration difficulty_order
                        \<lparr>current_datetime = datetime_combine today start_time,
                         blocks = [], study_total = 0, break_total = 0\<rparr> of
                   Inl e \<Rightarrow> Inl e
                 | Inr st \<Rightarrow>
                     Inr \<lparr>study_blocks = blocks st,
                          total_study_time = study_total st,
                          total_break_time = break_total st\<rparr>))"

section \<open>The clock and the standard library's datetime parsers\<close>

text \<open>
  Outside the scheduler a \<^verbatim>\<open>datetime\<close> may carry seconds, microseconds and a UTC offset.
  It is its wall-clock reading in microseconds since 0001-01-01T00:00:00 together with the flag
  that it is offset-aware. The code only ever compares such a value with an offset-naive one,
  and Python raises \<^verbatim>\<open>TypeError\<close> when exactly one side is aware, so the offset itself is
  never needed.
\<close>

record py_datetime =
  dt_aware :: bool
  dt_wall :: int

text \<open>
  What the code takes from its surroundings: \<^verbatim>\<open>datetime.now()\<close> (offset-naive),
  \<^verbatim>\<open>datetime.fromisoformat\<close> and \<^verbatim>\<open>datetime.fromtimestamp\<close> (\<open>None\<close> when they
  raise; the latter returns an offset-naive local time).
\<close>

record stdlib =
  now :: int
  fromisoformat :: "string \<Rightarrow> py_datetime option"
  fromtimestamp :: "int \<Rightarrow> int option"

definition datetime_max_micros :: int where
  "datetime_max_micros = 3652059 * 86400 * 1000000"

definition dt_hour :: "int \<Rightarrow> int" where
  "dt_hour wall = (wall div 3600000000) mod 24"

definition dt_minute :: "int \<Rightarrow> int" where
  "dt_minute wall = (wall div 60000000) mod 60"

definition dt_strftime_HM :: "int \<Rightarrow> string" where
  "dt_strftime_HM wall = two_digits (nat (dt_hour wall)) @ '':'' @ two_digits (nat (dt_minute wall))"

text \<open>\<^verbatim>\<open>s.replace('Z', '+00:00')\<close> and \<^verbatim>\<open>s.replace('Z', '')\<close>.\<close>

definition replace_Z_utc :: "string \<Rightarrow> string" where
  "replace_Z_utc s = concat (map (\<lambda>c. if c = CHR ''Z'' then ''+00:00'' else [c]) s)"


subsection \<open>A concrete parser for the examples\<close>

text \<open>
  For evaluating concrete inputs: \<^verbatim>\<open>fromisoformat\<close> on the strings of the form
  \<^verbatim>\<open>YYYY-MM-DDTHH:MM:SS\<close>, optionally followed by an offset \<^verbatim>\<open>+HH:MM\<close> or
  \<^verbatim>\<open>-HH:MM\<close>, with the proleptic Gregorian day count of \<^verbatim>\<open>date.toordinal\<close>. Python
  accepts more spellings than these; the general theorems below hold for every parser, and
  this one is only applied to strings of this form.
\<close>

fun int_of_digits :: "string \<Rightarrow> int option" where
  "int_of_digits [] = None"
| "int_of_digits [c] = map_option int (digit_val c)"
| "int_of_digits (c # cs) =
     (case (digit_val c, int_of_digits cs) of
        (Some d, Some r) \<Rightarrow> Some (int d * 10 ^ length cs + r)
      | _ \<Rightarrow> None)"

definition is_leap :: "int \<Rightarrow> bool" where
  "is_leap y = (y mod 4 = 0 \<and> (y mod 100 \<noteq> 0 \<or> y mod 400 = 0))"

definition days_before_year :: "int \<Rightarrow> int" where
  "days_before_year y = (y - 1) * 365 + (y - 1) div 4 - (y - 1) div 100 + (y - 1) div 400"

definition days_in_month :: "int \<Rightarrow> int \<Rightarrow> int" where
  "days_in_month y m =
     (if m = 2 then (if is_leap y then 29 else 28)
      else if m = 4 \<or> m = 6 \<or> m = 9 \<or> m = 11 then 30 else 31)"

definition days_before_month :: "int \<Rightarrow> int \<Rightarrow> int" where
  "days_before_month y m = sum_list (map (days_in_month y) [1..m - 1])"

definition civil_micros :: "int \<Rightarrow> int \<Rightarrow> int \<Rightarrow> int \<Rightarrow> int \<Rightarrow> int \<Rightarrow> int" where
  "civil_micros y m d hh mm ss =
     ((days_before_year y + days_before_month y m + (d - 1)) * 86400
        + hh * 3600 + mm * 60 + ss) * 1000000"

definition iso_offset :: "string \<Rightarrow> bool" where
  "iso_offset s =
     (length s = 6 \<and> (s ! 0 = CHR ''+'' \<or> s ! 0 = CHR ''-'') \<and> s ! 3 = CHR '':''
      \<and> (case (int_of_digits (take 2 (drop 1 s)), int_of_digits (drop 4 s)) of
            (Some h, Some m) \<Rightarrow> h < 24 \<and> m < 60
          | _ \<Rightarrow> False))"

definition iso_basic :: "string \<Rightarrow> py_datetime option" where
  "iso_basic s =
     (if (length s = 19 \<or> (length s = 25 \<and> iso_offset (drop 19 s)))
         \<and> s ! 4 = CHR ''-'' \<and> s ! 7 = CHR ''-'' \<and> s ! 10 = CHR ''T''
         \<and> s ! 13 = CHR '':'' \<and> s ! 16 = CHR '':''
      then
        (case (int_of_digits (take 4 s), int_of_digits (take 2 (drop 5 s)),
               int_of_digits (take 2 (drop 8 s)), int_of_digits (take 2 (drop 11 s)),
               int_of_digits (take 2 (drop 14 s)), int_of_digits (take 2 (drop 17 s))) of
           (Some y, Some m, Some d, Some hh, Some mm, Some ss) \<Rightarrow>
             if 1 \<le> y \<and> 1 \<le> m \<and> m \<le> 12 \<and> 1 \<le> d \<and> d \<le> days_in_month y m
                \<and> hh < 24 \<and> mm < 60 \<and> ss < 60
             then Some \<lparr>dt_aware = (length s = 25), dt_wall = civil_micros y m d hh mm ss\<rparr>
             else None
         | _ \<Rightarrow> None)
      else None)"

text \<open>A clock that reads 2025-09-14T12:00:00, with that parser and no timestamp conversion.\<close>

definition example_stdlib :: stdlib where
  "example_stdlib =
     \<lparr>now = civil_micros 2025 9 14 12 0 0, fromisoformat = iso_basic,
      fromtimestamp = (\<lambda>ts. None)\<rparr>"

section \<open>CalendarOptimizer: free time between events\<close>

text \<open>
  An event as \<^verbatim>\<open>_calculate_free_time_blocks\<close> reads it: \<^verbatim>\<open>event.get('start', '')\<close> and
  \<^verbatim>\<open>event.get('end', '')\<close>, so an absent key is the empty string. A free block is the
  dictionary the function builds, without its \<^verbatim>\<open>duration_hours\<close> entry (a rounded float
  that the function never reads back).
\<close>

record event =
  ev_start :: string
  ev_end :: string

record free_block =
  fb_start :: string
  fb_end :: string

text \<open>The constant \<^verbatim>\<open>datetime.fromisoformat('2025-09-13T09:00:00')\<close>.\<close>

definition free_day_start :: int where
  "free_day_start = civil_micros 2025 9 13 9 0 0"

text \<open>\<^verbatim>\<open>timedelta.seconds\<close> of a non-negative difference: the seconds within the day.\<close>

definition timedelta_seconds :: "int \<Rightarrow> int" where
  "timedelta_seconds micros = (micros div 1000000) mod 86400"




text \<open>The two events \<^verbatim>\<open>get_calendar_events\<close> uses when no calendar is connected.\<close>

definition simulated_events :: "event list" where
  "simulated_events =
     [\<lparr>ev_start = ''2025-09-13T10:00:00'', ev_end = ''2025-09-13T11:30:00''\<rparr>,
      \<lparr>ev_start = ''2025-09-13T14:00:00'', ev_end = ''2025-09-13T17:00:00''\<rparr>]"

text \<open>The test \<^verbatim>\<open>duration >= 0.5\<close> on a difference of two times, in microseconds.\<close>

definition significant_gap :: "int \<Rightarrow> bool" where
  "significant_gap micros =
     (py_float_div (of_int (timedelta_seconds micros)) 3600 \<ge> float_0_5)"



text \<open>
  Busy intervals in order, each starting a reported gap after the previous one ends (the first
  after the cursor) and each long enough to be reported as a gap itself.
\<close>

fun busy_chain :: "int \<Rightarrow> (int \<times> int) list \<Rightarrow> bool" where
  "busy_chain c [] = True"
| "busy_chain c (iv # rest) =
     (c < fst iv \<and> significant_gap (fst iv - c)
      \<and> fst iv < snd iv \<and> significant_gap (snd iv - fst iv)
      \<and> busy_chain (snd iv) rest)"

text \<open>The free block the loop builds for a gap.\<close>

definition span_block :: "int \<times> int \<Rightarrow> free_block" where
  "span_block iv = \<lparr>fb_start = dt_strftime_HM (fst iv), fb_end = dt_strftime_HM (snd iv)\<rparr>"

text \<open>
  The intervals of the two simulated events, and the free blocks found between them written
  as events of that day.
\<close>

definition simulated_busy :: "(int \<times> int) list" where
  "simulated_busy =
     [(civil_micros 2025 9 13 10 0 0, civil_micros 2025 9 13 11 30 0),
      (civil_micros 2025 9 13 14 0 0, civil_micros 2025 9 13 17 0 0)]"

definition fed_back_events :: "event list" where
  "fed_back_events =
     [\<lparr>ev_start = ''2025-09-13T09:00:00'', ev_end = ''2025-09-13T10:00:00''\<rparr>,
      \<lparr>ev_start = ''2025-09-13T11:30:00'', ev_end = ''2025-09-13T14:00:00''\<rparr>]"




section \<open>GmailAnalyzer: email content analysis\<close>

text \<open>
  An email dictionary with the keys the analysis reads; the timestamp is in epoch seconds. An
  element of the list that is not a dictionary is \<open>NotADict\<close>.
\<close>

record email =
  e_subject :: "string option"
  e_body :: "string option"
  e_snippet :: "string option"
  e_text :: "string option"
  e_sender :: "string option"
  e_from :: "string option"
  e_date :: "string option"
  e_timestamp :: "int option"

datatype email_item = Email email | NotADict

definition stress_keywords :: "string list" where
  "stress_keywords =
     [''urgent'', ''deadline'', ''asap'', ''emergency'', ''critical'',
      ''overdue'', ''late'', ''failed'', ''missing'', ''important'',
      ''immediately'', ''quickly'', ''rush'', ''priority'']"

definition work_keywords :: "string list" where
  "work_keywords =
     [''assignment'', ''homework'', ''project'', ''exam'', ''test'',
      ''quiz'', ''submission'', ''grade'', ''course'', ''class'',
      ''study'', ''lecture'', ''professor'', ''teacher'']"

subsection \<open>The first loop: which emails are kept\<close>

text \<open>
  \<open>Inl\<close> is an exception raised while the date is read, \<open>Inr None\<close> no date. An email is
  dropped only when its date was read, is offset-naive and lies before the cutoff; comparing
  an offset-aware date with the cutoff raises, and the handler keeps the email.
\<close>

definition first_loop_date :: "stdlib \<Rightarrow> email \<Rightarrow> py_error + py_datetime option" where
  "first_loop_date env email =
     (case e_date email of
        Some date_str \<Rightarrow>
          if CHR ''T'' \<in> set date_str then
            (case fromisoformat env (replace_Z_utc date_str) of
               None \<Rightarrow> Inl ValueError
             | Some email_date \<Rightarrow> Inr (Some email_date))
          else Inr None
      | None \<Rightarrow>
          (case e_timestamp email of
             Some ts \<Rightarrow>
               (case fromtimestamp env ts of
                  None \<Rightarrow> Inl ValueError
                | Some wall \<Rightarrow> Inr (Some \<lparr>dt_aware = False, dt_wall = wall\<rparr>))
           | None \<Rightarrow> Inr None))"

definition is_recent :: "stdlib \<Rightarrow> int \<Rightarrow> email_item \<Rightarrow> bool" where
  "is_recent env cutoff_date item =
     (case item of
        NotADict \<Rightarrow> True
      | Email email \<Rightarrow>
          (case first_loop_date env email of
             Inl e \<Rightarrow> True
           | Inr None \<Rightarrow> True
           | Inr (Some email_date) \<Rightarrow>
               if dt_aware email_date then True else dt_wall email_date \<ge> cutoff_date))"

subsection \<open>The second loop: counting\<close>

record counters =
  urgent_count :: int
  work_count :: int
  keywords_found :: "string list"
  hourly :: "(int \<times> int) list"

definition get_or_empty :: "string option \<Rightarrow> string" where
  "get_or_empty v = (case v of Some s \<Rightarrow> s | None \<Rightarrow> [])"

text \<open>\<^verbatim>\<open>a or b\<close> on strings.\<close>

definition str_or :: "string \<Rightarrow> string \<Rightarrow> string" where
  "str_or a b = (if a \<noteq> [] then a else b)"

definition email_text :: "email \<Rightarrow> string" where
  "email_text email =
     (let subject = lower (get_or_empty (e_subject email));
          body = lower (str_or (str_or (get_or_empty (e_body email))
                                       (get_or_empty (e_snippet email)))
                               (get_or_empty (e_text email)));
          sender = lower (str_or (get_or_empty (e_sender email)) (get_or_empty (e_from email)))
      in subject @ '' '' @ body @ '' '' @ sender)"

fun scan_stress :: "string list \<Rightarrow> string \<Rightarrow> counters \<Rightarrow> counters" where
  "scan_stress [] txt c = c"
| "scan_stress (keyword # rest) txt c =
     (if str_in keyword txt then
        c\<lparr>urgent_count := urgent_count c + 1,
          keywords_found := (if keyword \<notin> set (keywords_found c)
                             then keywords_found c @ [keyword] else keywords_found c)\<rparr>
      else scan_stress rest txt c)"

fun scan_work :: "string list \<Rightarrow> string \<Rightarrow> counters \<Rightarrow> counters" where
  "scan_work [] txt c = c"
| "scan_work (keyword # rest) txt c =
     (if str_in keyword txt then c\<lparr>work_count := work_count c + 1\<rparr>
      else scan_work rest txt c)"

text \<open>\<^verbatim>\<open>d[k] = d.get(k, 0) + 1\<close> on a dictionary kept in insertion order.\<close>

fun dict_increment :: "int \<Rightarrow> (int \<times> int) list \<Rightarrow> (int \<times> int) list" where
  "dict_increment k [] = [(k, 1)]"
| "dict_increment k ((k', v) # rest) =
     (if k = k' then (k', v + 1) # rest else (k', v) # dict_increment k rest)"

text \<open>The time read in the second loop; \<open>None\<close> when there is none or reading it raised.\<close>

definition second_loop_time :: "stdlib \<Rightarrow> email \<Rightarrow> py_datetime option" where
  "second_loop_time env email =
     (case e_date email of
        Some date_str \<Rightarrow> fromisoformat env (replace_Z_utc date_str)
      | None \<Rightarrow>
          (case e_timestamp email of
             Some ts \<Rightarrow>
               (case fromtimestamp env ts of
                  None \<Rightarrow> None
                | Some wall \<Rightarrow> Some \<lparr>dt_aware = False, dt_wall = wall\<rparr>)
           | None \<Rightarrow> None))"

definition count_email :: "stdlib \<Rightarrow> email_item \<Rightarrow> counters \<Rightarrow> counters" where
  "count_email env item c =
     (case item of
        NotADict \<Rightarrow> c
      | Email email \<Rightarrow>
          (let c1 = scan_stress stress_keywords (email_text email) c;
               c2 = scan_work work_keywords (email_text email) c1
           in case second_loop_time env email of
                None \<Rightarrow> c2
              | Some email_time \<Rightarrow>
                  c2\<lparr>hourly := dict_increment (dt_hour (dt_wall email_time)) (hourly c2)\<rparr>))"

subsection \<open>Peak hours and recommendations\<close>

definition peak_hour_label :: "int \<Rightarrow> string" where
  "peak_hour_label hour =
     two_digits (nat hour) @ '':00-'' @ two_digits (nat ((hour + 1) mod 24)) @ '':00''"

text \<open>
  \<^verbatim>\<open>count >= max_count * 0.7\<close>: an exact comparison of an \<^verbatim>\<open>int\<close> with the rounded product.
\<close>

definition compute_peak_hours :: "(int \<times> int) list \<Rightarrow> py_error + string list" where
  "compute_peak_hours hourly_distribution =
     (if hourly_distribution = [] then Inr []
      else
        (let max_count = Max (set (map snd hourly_distribution))
         in case py_float_of_int max_count of
              Inl e \<Rightarrow> Inl e
            | Inr m \<Rightarrow>
                Inr (map (\<lambda>(hour, count). peak_hour_label hour)
                       (filter (\<lambda>(hour, count). of_int count \<ge> py_float_mul m float_0_7)
                          hourly_distribution))))"

definition rec_urgency :: string where
  "rec_urgency = ''High urgency emails detected - consider prioritization techniques''"

definition rec_scattered :: string where
  "rec_scattered = ''Email scattered throughout day - try batching email checks''"

definition rec_late_night :: string where
  "rec_late_night = ''Late night/early morning emails - set email boundaries''"

definition rec_volume :: string where
  "rec_volume = ''High volume of academic emails - consider organizing with filters''"

definition rec_healthy :: string where
  "rec_healthy = ''Email patterns look healthy - keep up the good work!''"

text \<open>
  \<^verbatim>\<open>any(hour for hour in hourly_distribution.keys() if hour >= 22 or hour <= 6)\<close>: the
  generator yields the selected hours themselves, and \<^verbatim>\<open>any\<close> asks whether one of them is
  truthy, that is, not zero.
\<close>

definition any_late_hour :: "(int \<times> int) list \<Rightarrow> bool" where
  "any_late_hour hourly_distribution =
     list_ex (\<lambda>hour. hour \<noteq> 0)
       (filter (\<lambda>hour. hour \<ge> 22 \<or> hour \<le> 6) (map fst hourly_distribution))"

definition recommend :: "int \<Rightarrow> int \<Rightarrow> int \<Rightarrow> string list \<Rightarrow> (int \<times> int) list \<Rightarrow> py_error + string list" where
  "recommend total_emails urgent work peak_hours hourly_distribution =
     (if total_emails > 0 then
        (case py_float_of_int total_emails of
           Inl e \<Rightarrow> Inl e
         | Inr t \<Rightarrow>
             (let r1 = (if of_int urgent > py_float_mul t float_0_25 then [rec_urgency] else []);
                  r2 = (if length peak_hours > 3 then [rec_scattered] else []);
                  r3 = (if any_late_hour hourly_distribution then [rec_late_night] else []);
                  r4 = (if of_int work > py_float_mul t float_0_6 then [rec_volume] else []);
                  recommendations = r1 @ r2 @ r3 @ r4
              in Inr (if recommendations = [] then [rec_healthy] else recommendations)))
      else Inr [rec_healthy])"

text \<open>
  The returned dictionary, without \<^verbatim>\<open>workload_score\<close> and \<^verbatim>\<open>burnout_risk\<close> (a float
  and its label, read by nothing else in the function) and without the two entries that
  repeat the clock and \<^verbatim>\<open>days_back\<close>.
\<close>

record analysis =
  total_emails :: int
  urgent_emails :: int
  work_emails :: int
  stress_keywords_found :: "string list"
  peak_hours :: "string list"
  recommendations :: "string list"
  hourly_distribution :: "(int \<times> int) list"

definition initial_counters :: counters where
  "initial_counters = \<lparr>urgent_count = 0, work_count = 0, keywords_found = [], hourly = []\<rparr>"

definition recent_emails :: "stdlib \<Rightarrow> int \<Rightarrow> email_item list \<Rightarrow> email_item list" where
  "recent_emails env cutoff_date emails = filter (is_recent env cutoff_date) emails"

text \<open>
  \<^verbatim>\<open>_analyze_email_content\<close>. The cutoff \<^verbatim>\<open>datetime.now() - timedelta(days=days_back)\<close>
  is computed outside every \<^verbatim>\<open>try\<close>; it raises \<^verbatim>\<open>OverflowError\<close> when it leaves the range
  of \<^verbatim>\<open>datetime\<close>.
\<close>

definition analyze_email_content :: "stdlib \<Rightarrow> email_item list \<Rightarrow> int \<Rightarrow> py_error + analysis" where
  "analyze_email_content env emails days_back =
     (let cutoff_date = now env - days_back * 86400 * 1000000
      in if cutoff_date < 0 \<or> datetime_max_micros \<le> cutoff_date then Inl OverflowError
         else
           (let recent = recent_emails env cutoff_date emails;
                total = int (length recent);
                c = fold (count_email env) recent initial_counters
            in case compute_peak_hours (hourly c) of
                 Inl e \<Rightarrow> Inl e
               | Inr peaks \<Rightarrow>
                   (case recommend total (urgent_count c) (work_count c) peaks (hourly c) of
                      Inl e \<Rightarrow> Inl e
                    | Inr recs \<Rightarrow>
                        Inr \<lparr>total_emails = total,
                             urgent_emails = urgent_count c,
                             work_emails = work_count c,
                             stress_keywords_found = keywords_found c,
                             peak_hours = peaks,
                             recommendations = recs,
                             hourly_distribution = hourly c\<rparr>)))"

text \<open>Example emails.\<close>

definition urgent_deadline_email :: email where
  "urgent_deadline_email =
     \<lparr>e_subject = Some ''URGENT: project update'', e_body = Some ''The deadline is Friday.'',
      e_snippet = None, e_text = None, e_sender = Some ''prof@uni.edu'', e_from = None,
      e_date = None, e_timestamp = None\<rparr>"

definition midnight_email :: email where
  "midnight_email =
     \<lparr>e_subject = Some ''Hello'', e_body = Some ''See you soon'',
      e_snippet = None, e_text = None, e_sender = Some ''friend@mail.org'', e_from = None,
      e_date = Some ''2025-09-14T00:30:00'', e_timestamp = None\<rparr>"

text \<open>The analysis expected for the single email \<open>midnight_email\<close>.\<close>

definition midnight_analysis :: analysis where
  "midnight_analysis =
     \<lparr>total_emails = 1, urgent_emails = 0, work_emails = 0, stress_keywords_found = [],
      peak_hours = [''00:00-01:00''], recommendations = [rec_healthy],
      hourly_distribution = [(0, 1)]\<rparr>"

text \<open>The analysis expected for the single email \<open>urgent_deadline_email\<close>.\<close>

definition urgent_analysis :: analysis where
  "urgent_analysis =
     \<lparr>total_emails = 1, urgent_emails = 1, work_emails = 1, stress_keywords_found = [''urgent''],
      peak_hours = [], recommendations = [rec_urgency, rec_volume],
      hourly_distribution = []\<rparr>"

text \<open>An element of the email list whose text contains at least one stress keyword.\<close>

definition has_stress_keyword :: "email_item \<Rightarrow> bool" where
  "has_stress_keyword item =
     (case item of
        NotADict \<Rightarrow> False
      | Email email \<Rightarrow> list_ex (\<lambda>keyword. str_in keyword (email_text email)) stress_keywords)"

subsection \<open>Notions used to state the scheduler's properties\<close>

text \<open>Each block starts where the one before it ends.\<close>

definition contiguous :: "block list \<Rightarrow> bool" where
  "contiguous bs = successively (\<lambda>a b. b_start_time b = b_end_time a) bs"

text \<open>
  The blocks lie end to end from the time \<open>t\<close>: each one starts where the layout has
  arrived and ends its own duration later.
\<close>

fun laid_out :: "int \<Rightarrow> block list \<Rightarrow> bool" where
  "laid_out t [] = True"
| "laid_out t (b # bs) =
     (b_start_time b = strftime_HM t \<and> b_end_time b = strftime_HM (t + b_duration b)
      \<and> laid_out (t + b_duration b) bs)"

text \<open>
  The stretch of time each block covers when the blocks are laid end to end from \<open>t\<close>:
  the pair of the instant it starts and the instant it ends, in minutes.
\<close>

fun block_spans :: "int \<Rightarrow> block list \<Rightarrow> (int \<times> int) list" where
  "block_spans t [] = []"
| "block_spans t (b # bs) = (t, t + b_duration b) # block_spans (t + b_duration b) bs"

text \<open>The sum of the \<^verbatim>\<open>duration\<close> entries of the blocks of one type.\<close>

definition sum_durations :: "block_type \<Rightarrow> block list \<Rightarrow> int" where
  "sum_durations ty bs = sum_list (map b_duration (filter (\<lambda>b. b_type b = ty) bs))"


subsection \<open>Example inputs\<close>

text \<open>
  The request \<^verbatim>\<open>{study_duration: 90, break_duration: 15, subjects: ["Math", "English"],
  start_time: "09:00"}\<close> and the schedule it is expected to give.
\<close>

definition example_preferences :: preferences where
  "example_preferences =
     \<lparr>p_study_duration = Some 90, p_break_duration = Some 15,
      p_subjects = Some [''Math'', ''English''], p_start_time = Some ''09:00'',
      p_end_time = None\<rparr>"

definition example_blocks :: "block list" where
  "example_blocks =
     [\<lparr>b_subject = ''Math'', b_start_time = ''09:00'', b_end_time = ''10:30'', b_type = Study,
       b_duration = 90, b_difficulty = Some 9, b_optimal_time = Some True, b_activity = None\<rparr>,
      \<lparr>b_subject = ''Break'', b_start_time = ''10:30'', b_end_time = ''10:50'', b_type = Break,
       b_duration = 20, b_difficulty = None, b_optimal_time = None,
       b_activity = Some ''Short walk or hydration''\<rparr>,
      \<lparr>b_subject = ''English'', b_start_time = ''10:50'', b_end_time = ''12:20'', b_type = Study,
       b_duration = 90, b_difficulty = Some 5, b_optimal_time = Some True, b_activity = None\<rparr>]"

definition example_schedule :: schedule where
  "example_schedule =
     \<lparr>study_blocks = example_blocks, total_study_time = 180, total_break_time = 20\<rparr>"

text \<open>
  The example request with a study duration of minus 100 minutes, and what the scheduler
  returns for it.
\<close>

definition negative_schedule :: schedule where
  "negative_schedule =
     \<lparr>study_blocks =
        [\<lparr>b_subject = ''Math'', b_start_time = ''09:00'', b_end_time = ''07:20'', b_type = Study,
          b_duration = - 100, b_difficulty = Some 9, b_optimal_time = Some True,
          b_activity = None\<rparr>,
         \<lparr>b_subject = ''Break'', b_start_time = ''07:20'', b_end_time = ''07:35'', b_type = Break,
          b_duration = 15, b_difficulty = None, b_optimal_time = None,
          b_activity = Some ''Short walk or hydration''\<rparr>,
         \<lparr>b_subject = ''English'', b_start_time = ''07:35'', b_end_time = ''06:15'', b_type = Study,
          b_duration = - 80, b_difficulty = Some 5, b_optimal_time = Some False,
          b_activity = None\<rparr>],
      total_study_time = - 180, total_break_time = 15\<rparr>"

definition negative_preferences :: preferences where
  "negative_preferences =
     \<lparr>p_study_duration = Some (- 100), p_break_duration = Some 15,
      p_subjects = Some [''Math'', ''English''], p_start_time = Some ''09:00'',
      p_end_time = None\<rparr>"


text \<open>A request with an empty subject list.\<close>

definition empty_subjects_preferences :: preferences where
  "empty_subjects_preferences =
     \<lparr>p_study_duration = Some 90, p_break_duration = Some 15,
      p_subjects = Some [], p_start_time = Some ''09:00'', p_end_time = Some ''17:00''\<rparr>"

section \<open>Properties\<close>

subsection \<open>Clock strings\<close>

lemma digit_val_digit_char: "d < 10 \<Longrightarrow> digit_val (digit_char d) = Some d"
proof -
  assume "d < 10"
  then have "d = 0 \<or> d = 1 \<or> d = 2 \<or> d = 3 \<or> d = 4 \<or> d = 5 \<or> d = 6 \<or> d = 7 \<or> d = 8 \<or> d = 9"
    by arith
  then show ?thesis
    by (elim disjE) (simp_all add: digit_val_def digit_char_def digits_def)
qed

lemma digit_val_SomeD: "digit_val c = Some d \<Longrightarrow> d < 10 \<and> c = digit_char d"
  by (auto simp: digit_val_def digit_char_def digits_def split: if_splits)

lemma digit_val_colon: "digit_val (CHR '':'') = None"
  by (simp add: digit_val_def digits_def)

lemma parse_hour_two_digits:
  "h < 24 \<Longrightarrow> parse_hour (two_digits h @ rest) = Some (h, rest)"
proof -
  assume h: "h < 24"
  have a: "h div 10 < 10" and b: "h mod 10 < 10" using h by auto
  have c: "(h div 10 = 2 \<and> h mod 10 \<le> 3) \<or> h div 10 \<le> 1" using h by presburger
  show ?thesis
    using c by (simp add: two_digits_def digit_val_digit_char [OF a] digit_val_digit_char [OF b])
qed

lemma parse_minute_two_digits:
  "m < 60 \<Longrightarrow> parse_minute (two_digits m) = Some (m, [])"
proof -
  assume m: "m < 60"
  have a: "m div 10 < 10" and b: "m mod 10 < 10" using m by auto
  have c: "m div 10 \<le> 5" using m by presburger
  show ?thesis
    using c by (simp add: two_digits_def digit_val_digit_char [OF a] digit_val_digit_char [OF b])
qed

lemma strptime_HM_print:
  "h < 24 \<Longrightarrow> m < 60 \<Longrightarrow> strptime_HM (two_digits h @ '':'' @ two_digits m) = Some (h, m)"
  by (simp add: strptime_HM_def parse_hour_two_digits parse_minute_two_digits)

lemma parse_hour_bound: "parse_hour s = Some (h, rest) \<Longrightarrow> h < 24"
  by (induction s rule: parse_hour.induct)
     (auto split: option.splits if_splits dest!: digit_val_SomeD)

lemma parse_minute_bound: "parse_minute s = Some (m, rest) \<Longrightarrow> m < 60"
  by (induction s rule: parse_minute.induct)
     (auto split: option.splits if_splits dest!: digit_val_SomeD)

lemma strptime_HM_bounds: "strptime_HM s = Some (h, m) \<Longrightarrow> h < 24 \<and> m < 60"
  by (auto simp: strptime_HM_def split: option.splits list.splits if_splits prod.splits
           dest: parse_hour_bound parse_minute_bound)


lemma hour_of_combine:
  "h < 24 \<Longrightarrow> m < 60 \<Longrightarrow> hour_of (datetime_combine today (h, m)) = int h"
proof -
  assume h: "h < 24" and m: "m < 60"
  have "(today * 1440 + int h * 60 + int m) mod 1440 = int h * 60 + int m"
    using h m by (simp add: add.assoc)
  moreover have "(int h * 60 + int m) div 60 = int h" using m by simp
  ultimately show ?thesis by (simp add: hour_of_def datetime_combine_def)
qed

lemma minute_of_combine:
  "m < 60 \<Longrightarrow> minute_of (datetime_combine today (h, m)) = int m"
proof -
  assume m: "m < 60"
  have "today * 1440 + int h * 60 + int m = int m + 60 * (today * 24 + int h)" by simp
  then have "(today * 1440 + int h * 60 + int m) mod 60 = int m mod 60"
    by (simp only: mod_mult_self2)
  then show ?thesis using m by (simp add: minute_of_def datetime_combine_def)
qed

lemma strftime_HM_combine:
  "h < 24 \<Longrightarrow> m < 60 \<Longrightarrow>
   strftime_HM (datetime_combine today (h, m)) = two_digits h @ '':'' @ two_digits m"
  by (simp add: strftime_HM_def hour_of_combine minute_of_combine)

lemma div_mod_twenty: "y \<le> 3 \<Longrightarrow> (20 + y) div 10 = (2::nat) \<and> (20 + y) mod 10 = y"
  by presburger

lemma strptime_HM_canonical:
  assumes "strptime_HM s = Some (h, m)" and "length s = 5"
  shows "s = two_digits h @ '':'' @ two_digits m"
proof -
  from assms(2) obtain a b c d e where s: "s = [a, b, c, d, e]"
    by (auto simp: length_Suc_conv eval_nat_numeral)
  show ?thesis
    using assms(1) unfolding s
    by (auto simp: strptime_HM_def two_digits_def digit_val_colon div_mod_twenty
             split: option.splits if_splits list.splits prod.splits
             dest!: digit_val_SomeD)
qed


lemma place_subject_blocks:
  assumes "place_subject sd bd ms subject st = Inr st'"
  shows "\<exists>new. blocks st' = blocks st @ new \<and> new \<noteq> [] \<and> contiguous new
           \<and> b_start_time (hd new) = strftime_HM (current_datetime st)
           \<and> b_end_time (last new) = strftime_HM (current_datetime st')
           \<and> length new = (if ms then 2 else 1)"
  using assms
  by (auto simp: place_subject_def Let_def contiguous_def split: sum.splits if_splits)

lemma place_all_blocks:
  "place_all sd bd subs st = Inr st' \<Longrightarrow>
   \<exists>new. blocks st' = blocks st @ new \<and> contiguous new
      \<and> length new = 2 * length subs - 1
      \<and> (subs \<noteq> [] \<longrightarrow> new \<noteq> []
            \<and> b_start_time (hd new) = strftime_HM (current_datetime st)
            \<and> b_end_time (last new) = strftime_HM (current_datetime st'))"
proof (induction subs arbitrary: st)
  case Nil
  then show ?case by (simp add: contiguous_def)
next
  case (Cons subject rest)
  from Cons.prems obtain st1 where
    step: "place_subject sd bd (rest \<noteq> []) subject st = Inr st1" and
    tail: "place_all sd bd rest st1 = Inr st'"
    by (auto split: sum.splits)
  from place_subject_blocks [OF step] obtain new1 where
    n1: "blocks st1 = blocks st @ new1" "new1 \<noteq> []" "contiguous new1"
        "b_start_time (hd new1) = strftime_HM (current_datetime st)"
        "b_end_time (last new1) = strftime_HM (current_datetime st1)"
        "length new1 = (if rest \<noteq> [] then 2 else 1)"
    by blast
  from Cons.IH [OF tail] obtain new2 where
    n2: "blocks st' = blocks st1 @ new2" "contiguous new2"
        "length new2 = 2 * length rest - 1"
        "rest \<noteq> [] \<longrightarrow> new2 \<noteq> []
            \<and> b_start_time (hd new2) = strftime_HM (current_datetime st1)
            \<and> b_end_time (last new2) = strftime_HM (current_datetime st')"
    by blast
  show ?case
  proof (cases "rest = []")
    case True
    with tail have "st' = st1" by simp
    with True n1 show ?thesis by (intro exI [of _ new1]) simp
  next
    case False
    then have len: "length rest > 0" by simp
    have "contiguous (new1 @ new2)"
      using n1 n2 False by (simp add: contiguous_def successively_append_iff)
    moreover have "length (new1 @ new2) = 2 * length (subject # rest) - 1"
      using n1(6) n2(3) False len by simp
    ultimately show ?thesis
      using n1 n2 False by (intro exI [of _ "new1 @ new2"]) simp
  qed
qed

lemma place_subject_totals:
  assumes "place_subject sd bd ms subject st = Inr st'"
    and "study_total st = sum_durations Study (blocks st)"
    and "break_total st = sum_durations Break (blocks st)"
  shows "study_total st' = sum_durations Study (blocks st')
       \<and> break_total st' = sum_durations Break (blocks st')"
  using assms
  by (auto simp: place_subject_def Let_def sum_durations_def split: sum.splits if_splits)

lemma place_all_totals:
  "place_all sd bd subs st = Inr st' \<Longrightarrow>
   study_total st = sum_durations Study (blocks st) \<Longrightarrow>
   break_total st = sum_durations Break (blocks st) \<Longrightarrow>
   study_total st' = sum_durations Study (blocks st')
     \<and> break_total st' = sum_durations Break (blocks st')"
proof (induction subs arbitrary: st)
  case Nil
  then show ?case by simp
next
  case (Cons subject rest)
  from Cons.prems(1) obtain st1 where
    step: "place_subject sd bd (rest \<noteq> []) subject st = Inr st1" and
    tail: "place_all sd bd rest st1 = Inr st'"
    by (auto split: sum.splits)
  from place_subject_totals [OF step Cons.prems(2,3)] Cons.IH [OF tail]
  show ?case by simp
qed


lemma insort_key_pair:
  "insort_key snd (x, f x) (map (\<lambda>s. (s, f s)) ys) = map (\<lambda>s. (s, f s)) (insort_key f x ys)"
  by (induction ys) auto

lemma sort_key_pair:
  "sort_key snd (map (\<lambda>s. (s, f s)) xs) = map (\<lambda>s. (s, f s)) (sort_key f xs)"
  by (induction xs) (auto simp: insort_key_pair)

lemma order_subjects_eq:
  "order_subjects_by_difficulty subjects = sorted_reverse get_subject_difficulty subjects"
proof -
  have "map fst (sorted_reverse snd (map (\<lambda>s. (s, get_subject_difficulty s)) subjects))
        = sorted_reverse get_subject_difficulty subjects"
    by (simp add: sorted_reverse_def rev_map sort_key_pair comp_def)
  then show ?thesis
    by (simp add: order_subjects_by_difficulty_def get_subject_difficulty_def [abs_def])
qed

lemma sorted_reverse_descending:
  "sorted_wrt (\<lambda>a b. f a \<ge> f b) (sorted_reverse f xs)"
proof -
  have "sorted (map f (sort_key f (rev xs)))" by (rule sorted_sort_key)
  then have "sorted_wrt (\<lambda>a b. f a \<le> f b) (sort_key f (rev xs))"
    by (simp add: sorted_map)
  then show ?thesis
    by (simp add: sorted_reverse_def sorted_wrt_rev)
qed

lemma sorted_reverse_stable:
  "filter (\<lambda>y. f y = k) (sorted_reverse f xs) = filter (\<lambda>y. f y = k) xs"
  by (simp add: sorted_reverse_def rev_filter [symmetric] sort_key_stable)

lemma length_order_subjects: "length (order_subjects_by_difficulty subjects) = length subjects"
  by (simp add: order_subjects_eq sorted_reverse_def)

text \<open>
  Claim C4. The subject ordering is a stable sort by descending difficulty: the result is in
  non-increasing difficulty order, the subjects of any one difficulty appear in their input
  order, nothing is lost or added, and English, Math, History (difficulties 5, 9, 6) come out
  as Math, History, English.
\<close>

theorem order_subjects_stable_descending:
  "sorted_wrt (\<lambda>a b. get_subject_difficulty a \<ge> get_subject_difficulty b)
      (order_subjects_by_difficulty subjects)
   \<and> (\<forall>d. filter (\<lambda>s. get_subject_difficulty s = d) (order_subjects_by_difficulty subjects)
            = filter (\<lambda>s. get_subject_difficulty s = d) subjects)
   \<and> mset (order_subjects_by_difficulty subjects) = mset subjects
   \<and> map get_subject_difficulty [''English'', ''Math'', ''History''] = [5, 9, 6]
   \<and> order_subjects_by_difficulty [''English'', ''Math'', ''History'']
        = [''Math'', ''History'', ''English'']"
proof -
  have a: "map get_subject_difficulty [''English'', ''Math'', ''History''] = [5, 9, 6]"
    by code_simp
  have b: "order_subjects_by_difficulty [''English'', ''Math'', ''History'']
        = [''Math'', ''History'', ''English'']"
    by code_simp
  have c: "mset (order_subjects_by_difficulty subjects) = mset subjects"
    by (simp add: order_subjects_eq sorted_reverse_def)
  show ?thesis
    using a b c by (simp add: order_subjects_eq sorted_reverse_descending sorted_reverse_stable)
qed

subsection \<open>Evaluated constants\<close>

lemma float_0_9_value: "float_0_9 = 8106479329266893 / 2 ^ 53"
  by code_simp
lemma float_1_0_value: "float_1_0 = 1"
  by code_simp
lemma difficulty_History: "get_subject_difficulty ''History'' = 6"
  by code_simp
lemma float_of_100: "py_float_of_int 100 = Inr 100"
  by code_simp
lemma float_100_times_1: "py_int_of_float (py_float_mul 100 float_1_0) = 100"
  by code_simp
lemma float_100_times_0_9: "py_int_of_float (py_float_mul 100 float_0_9) = 90"
  by code_simp


subsection \<open>The schedule of the example request\<close>

lemma hour_of_day: "0 \<le> k \<Longrightarrow> k < 1440 \<Longrightarrow> hour_of (today * 1440 + k) = k div 60"
  by (simp add: hour_of_def)

lemma minute_of_day: "minute_of (today * 1440 + k) = k mod 60"
proof -
  have "today * 1440 + k = k + 60 * (today * 24)" by simp
  then have "(today * 1440 + k) mod 60 = k mod 60" by (simp only: mod_mult_self2)
  then show ?thesis by (simp add: minute_of_def)
qed

lemma strftime_HM_day:
  "0 \<le> k \<Longrightarrow> k < 1440 \<Longrightarrow>
   strftime_HM (today * 1440 + k) = two_digits (nat (k div 60)) @ '':'' @ two_digits (nat (k mod 60))"
  by (simp add: strftime_HM_def hour_of_day minute_of_day)

lemma datetime_add_minutes_day:
  "0 \<le> today \<Longrightarrow> today < 3652059 \<Longrightarrow> 0 \<le> k + n \<Longrightarrow> k + n < 1440 \<Longrightarrow>
   datetime_add_minutes (today * 1440 + k) n = Inr (today * 1440 + (k + n))"
  by (simp add: datetime_add_minutes_def datetime_max_minutes_def)

lemma difficulty_Math: "get_subject_difficulty ''Math'' = 9"
  by code_simp
lemma difficulty_English: "get_subject_difficulty ''English'' = 5"
  by code_simp
lemma float_of_90: "py_float_of_int 90 = Inr 90"
  by code_simp
lemma float_90_times_1: "py_int_of_float (py_float_mul 90 float_1_0) = 90"
  by code_simp
lemma order_Math_English:
  "order_subjects_by_difficulty [''Math'', ''English''] = [''Math'', ''English'']"
  by code_simp
lemma strptime_0900: "strptime_HM ''09:00'' = Some (9, 0)"
  by code_simp

lemma adjust_Math_morning:
  "hour_of t = 9 \<Longrightarrow> adjust_duration_for_time_and_subject t ''Math'' 90 = Inr 90"
  by (simp add: adjust_duration_for_time_and_subject_def duration_multiplier_def
        difficulty_Math float_of_90 float_90_times_1)

lemma adjust_English_morning:
  "hour_of t = 10 \<Longrightarrow> adjust_duration_for_time_and_subject t ''English'' 90 = Inr 90"
  by (simp add: adjust_duration_for_time_and_subject_def duration_multiplier_def
        difficulty_English float_of_90 float_90_times_1)

lemma two_digits_values:
  "two_digits 9 = ''09''" "two_digits 0 = ''00''" "two_digits 10 = ''10''"
  "two_digits 30 = ''30''" "two_digits 50 = ''50''" "two_digits 12 = ''12''"
  "two_digits 20 = ''20''"
  by (simp_all add: two_digits_def digit_char_def digits_def)

lemma example_run:
  assumes "0 \<le> today" and "today < 3652059"
  shows "generate_optimized_blocks today example_preferences = Inr example_schedule"
proof -
  have h9: "hour_of (today * 1440 + 540) = 9" by (simp add: hour_of_day)
  have h10: "hour_of (today * 1440 + 650) = 10" by (simp add: hour_of_day)
  have s1: "strftime_HM (today * 1440 + 540) = ''09:00''"
    by (simp add: strftime_HM_day two_digits_values)
  have s2: "strftime_HM (today * 1440 + 630) = ''10:30''"
    by (simp add: strftime_HM_day two_digits_values)
  have s3: "strftime_HM (today * 1440 + 650) = ''10:50''"
    by (simp add: strftime_HM_day two_digits_values)
  have s4: "strftime_HM (today * 1440 + 740) = ''12:20''"
    by (simp add: strftime_HM_day two_digits_values)
  have a1: "datetime_add_minutes (today * 1440 + 540) 90 = Inr (today * 1440 + 630)"
    using datetime_add_minutes_day [OF assms, of 540 90] by simp
  have a2: "datetime_add_minutes (today * 1440 + 630) 20 = Inr (today * 1440 + 650)"
    using datetime_add_minutes_day [OF assms, of 630 20] by simp
  have a3: "datetime_add_minutes (today * 1440 + 650) 90 = Inr (today * 1440 + 740)"
    using datetime_add_minutes_day [OF assms, of 650 90] by simp
  have first: "place_subject 90 15 True ''Math''
          \<lparr>current_datetime = today * 1440 + 540, blocks = [], study_total = 0, break_total = 0\<rparr>
        = Inr \<lparr>current_datetime = today * 1440 + 650, blocks = take 2 example_blocks,
               study_total = 90, break_total = 20\<rparr>"
    by (simp add: place_subject_def adjust_Math_morning [OF h9] a1 a2 s1 s2 s3
          adjust_break_duration_def suggest_break_activity_def difficulty_Math
          is_optimal_time_for_subject_def h9 example_blocks_def)
  have second: "place_subject 90 15 False ''English''
          \<lparr>current_datetime = today * 1440 + 650, blocks = take 2 example_blocks,
               study_total = 90, break_total = 20\<rparr>
        = Inr \<lparr>current_datetime = today * 1440 + 740, blocks = example_blocks,
               study_total = 180, break_total = 20\<rparr>"
    by (simp add: place_subject_def adjust_English_morning [OF h10] a3 s3 s4
          difficulty_English is_optimal_time_for_subject_def h10 example_blocks_def)
  show ?thesis
    by (simp add: generate_optimized_blocks_def example_preferences_def requested_subjects_def
          requested_start_time_def strptime_0900 order_Math_English datetime_combine_def
          first second example_schedule_def)
qed

lemma blocks_of_run:
  assumes "generate_optimized_blocks today preferences = Inr s"
  obtains hm st where
    "strptime_HM (requested_start_time preferences) = Some hm"
    "place_all (case p_study_duration preferences of Some d \<Rightarrow> d | None \<Rightarrow> 90)
               (case p_break_duration preferences of Some d \<Rightarrow> d | None \<Rightarrow> 15)
               (order_subjects_by_difficulty (requested_subjects preferences))
               \<lparr>current_datetime = datetime_combine today hm,
                blocks = [], study_total = 0, break_total = 0\<rparr> = Inr st"
    "s = \<lparr>study_blocks = blocks st, total_study_time = study_total st,
          total_break_time = break_total st\<rparr>"
  using assms
  by (auto simp: generate_optimized_blocks_def Let_def split: option.splits sum.splits)

subsection \<open>Contiguous blocks\<close>

lemma laid_out_append:
  "laid_out t (xs @ ys)
     = (laid_out t xs \<and> laid_out (t + sum_list (map b_duration xs)) ys)"
  by (induction xs arbitrary: t) (auto simp: add.assoc)

lemma datetime_add_minutes_Inr: "datetime_add_minutes t n = Inr t' \<Longrightarrow> t' = t + n"
  by (auto simp: datetime_add_minutes_def split: if_splits)

lemma place_subject_laid_out:
  assumes "place_subject sd bd ms subject st = Inr st'"
    and "laid_out t0 (blocks st)"
    and "current_datetime st = t0 + sum_list (map b_duration (blocks st))"
  shows "laid_out t0 (blocks st')
       \<and> current_datetime st' = t0 + sum_list (map b_duration (blocks st'))"
  using assms
  by (auto simp: place_subject_def Let_def laid_out_append
           split: sum.splits if_splits dest!: datetime_add_minutes_Inr)

lemma place_all_laid_out:
  "place_all sd bd subs st = Inr st' \<Longrightarrow> laid_out t0 (blocks st) \<Longrightarrow>
   current_datetime st = t0 + sum_list (map b_duration (blocks st)) \<Longrightarrow>
   laid_out t0 (blocks st')
     \<and> current_datetime st' = t0 + sum_list (map b_duration (blocks st'))"
proof (induction subs arbitrary: st)
  case Nil
  then show ?case by simp
next
  case (Cons subject rest)
  from Cons.prems(1) obtain st1 where
    step: "place_subject sd bd (rest \<noteq> []) subject st = Inr st1" and
    tail: "place_all sd bd rest st1 = Inr st'"
    by (auto split: sum.splits)
  from place_subject_laid_out [OF step Cons.prems(2,3)] Cons.IH [OF tail]
  show ?case by simp
qed

lemma run_laid_out:
  assumes "generate_optimized_blocks today preferences = Inr s"
  shows "\<exists>start_time. strptime_HM (requested_start_time preferences) = Some start_time
           \<and> laid_out (datetime_combine today start_time) (study_blocks s)"
proof -
  from assms obtain hm st where
    parse: "strptime_HM (requested_start_time preferences) = Some hm" and
    loop: "place_all (case p_study_duration preferences of Some d \<Rightarrow> d | None \<Rightarrow> 90)
               (case p_break_duration preferences of Some d \<Rightarrow> d | None \<Rightarrow> 15)
               (order_subjects_by_difficulty (requested_subjects preferences))
               \<lparr>current_datetime = datetime_combine today hm,
                blocks = [], study_total = 0, break_total = 0\<rparr> = Inr st" and
    s: "s = \<lparr>study_blocks = blocks st, total_study_time = study_total st,
          total_break_time = break_total st\<rparr>"
    by (rule blocks_of_run)
  from place_all_laid_out [OF loop, of "datetime_combine today hm"] have
    "laid_out (datetime_combine today hm) (blocks st)" by simp
  with parse s show ?thesis by simp
qed


lemma pow2_pos: "0 < pow2 k"
  by (simp add: pow2_def)

lemma round_half_even_nonneg: "0 \<le> x \<Longrightarrow> 0 \<le> round_half_even x"
  by (auto simp: round_half_even_def Let_def)

lemma round_double_nonneg: "0 \<le> x \<Longrightarrow> 0 \<le> round_double x"
  by (auto simp: round_double_def Let_def pow2_pos less_imp_le
        intro!: mult_nonneg_nonneg round_half_even_nonneg divide_nonneg_pos)

lemma py_float_mul_nonneg: "0 \<le> a \<Longrightarrow> 0 \<le> b \<Longrightarrow> 0 \<le> py_float_mul a b"
  by (simp add: py_float_mul_def round_double_nonneg)

lemma float_literals_nonneg: "0 \<le> float_1_0" "0 \<le> float_0_9" "0 \<le> float_0_8"
  by (simp_all add: float_1_0_def float_0_9_def float_0_8_def round_double_nonneg)

lemma duration_multiplier_nonneg: "0 \<le> duration_multiplier hour"
  by (simp add: duration_multiplier_def float_literals_nonneg)

lemma adjust_duration_nonneg:
  assumes "0 \<le> base_duration"
    and "adjust_duration_for_time_and_subject time subject base_duration = Inr a"
  shows "0 \<le> a"
proof -
  define m where "m = (if get_subject_difficulty subject \<ge> 8
                        then (if hour_of time < 12 then duration_multiplier (hour_of time)
                              else py_float_mul (duration_multiplier (hour_of time)) float_0_9)
                        else duration_multiplier (hour_of time))"
  have m: "0 \<le> m"
    by (simp add: m_def duration_multiplier_nonneg py_float_mul_nonneg float_literals_nonneg)
  from assms(2) obtain b where
    b: "py_float_of_int base_duration = Inr b" and
    a: "a = py_int_of_float (py_float_mul b m)"
    by (auto simp: adjust_duration_for_time_and_subject_def Let_def m_def split: sum.splits)
  from b assms(1) have "0 \<le> b"
    by (auto simp: py_float_of_int_def Let_def round_double_nonneg split: if_splits)
  with m have "0 \<le> py_float_mul b m" by (simp add: py_float_mul_nonneg)
  with a show ?thesis by (simp add: py_int_of_float_def)
qed

lemma adjust_break_duration_nonneg: "0 \<le> bd \<Longrightarrow> 0 \<le> adjust_break_duration bd a"
  by (simp add: adjust_break_duration_def)

lemma place_subject_nonneg:
  assumes "place_subject sd bd ms subject st = Inr st'" and "0 \<le> sd" and "0 \<le> bd"
    and "\<forall>b \<in> set (blocks st). 0 \<le> b_duration b"
  shows "\<forall>b \<in> set (blocks st'). 0 \<le> b_duration b"
proof -
  from assms(1) obtain a where
    a: "adjust_duration_for_time_and_subject (current_datetime st) subject sd = Inr a"
    by (auto simp: place_subject_def split: sum.splits)
  from adjust_duration_nonneg [OF assms(2) a] have "0 \<le> a" .
  moreover have "0 \<le> adjust_break_duration bd a"
    using assms(3) by (rule adjust_break_duration_nonneg)
  ultimately show ?thesis
    using assms(1,4) a
    by (auto simp: place_subject_def Let_def split: sum.splits if_splits)
qed

lemma place_all_nonneg:
  "place_all sd bd subs st = Inr st' \<Longrightarrow> 0 \<le> sd \<Longrightarrow> 0 \<le> bd \<Longrightarrow>
   \<forall>b \<in> set (blocks st). 0 \<le> b_duration b \<Longrightarrow>
   \<forall>b \<in> set (blocks st'). 0 \<le> b_duration b"
proof (induction subs arbitrary: st)
  case Nil
  then show ?case by simp
next
  case (Cons subject rest)
  from Cons.prems(1) obtain st1 where
    step: "place_subject sd bd (rest \<noteq> []) subject st = Inr st1" and
    tail: "place_all sd bd rest st1 = Inr st'"
    by (auto split: sum.splits)
  from place_subject_nonneg [OF step Cons.prems(2,3,4)]
  show ?case by (rule Cons.IH [OF tail Cons.prems(2,3)])
qed

lemma block_spans_after:
  "\<forall>b \<in> set bs. 0 \<le> b_duration b \<Longrightarrow> \<forall>p \<in> set (block_spans t bs). t \<le> fst p \<and> fst p \<le> snd p"
  by (induction bs arbitrary: t) force+

lemma block_spans_disjoint:
  "\<forall>b \<in> set bs. 0 \<le> b_duration b \<Longrightarrow>
   sorted_wrt (\<lambda>p q. snd p \<le> fst q) (block_spans t bs)"
proof (induction bs arbitrary: t)
  case Nil
  then show ?case by simp
next
  case (Cons b bs)
  from Cons.prems have "\<forall>b \<in> set bs. 0 \<le> b_duration b" by simp
  from block_spans_after [OF this, of "t + b_duration b"] Cons.IH [OF this, of "t + b_duration b"]
  show ?case by simp
qed

lemma laid_out_spans:
  "laid_out t bs \<longleftrightarrow>
     map b_start_time bs = map (\<lambda>p. strftime_HM (fst p)) (block_spans t bs)
     \<and> map b_end_time bs = map (\<lambda>p. strftime_HM (snd p)) (block_spans t bs)"
  by (induction bs arbitrary: t) auto


lemma negative_run:
  "generate_optimized_blocks 739507 negative_preferences = Inr negative_schedule"
  by code_simp

lemma strptime_900: "strptime_HM ''9:00'' = Some (9, 0)"
  by code_simp

lemma single_digit_hour_run:
  "generate_optimized_blocks 739507 (example_preferences\<lparr>p_start_time := Some ''9:00''\<rparr>)
     = Inr example_schedule"
proof -
  have "generate_optimized_blocks 739507 (example_preferences\<lparr>p_start_time := Some ''9:00''\<rparr>)
          = generate_optimized_blocks 739507 example_preferences"
    by (simp add: generate_optimized_blocks_def requested_subjects_def requested_start_time_def
          example_preferences_def strptime_900 strptime_0900)
  also have "\<dots> = Inr example_schedule" by (rule example_run) simp_all
  finally show ?thesis .
qed

text \<open>
  Claim C1, as stated, fails in two ways. The request \<^verbatim>\<open>start_time: "9:00"\<close> is accepted
  and the first block starts at \<^verbatim>\<open>"09:00"\<close>, another string. And with a study duration of
  minus 100 minutes the Math block runs from 09:00 back to 07:20, so that the break from 07:20
  to 07:35 and the English block lie inside the time the Math block covers, although every
  block still starts at the string the previous one ended with.
\<close>

theorem first_start_reformatted_and_overlap:
  "generate_optimized_blocks 739507 (example_preferences\<lparr>p_start_time := Some ''9:00''\<rparr>)
     = Inr example_schedule
   \<and> requested_start_time (example_preferences\<lparr>p_start_time := Some ''9:00''\<rparr>) = ''9:00''
   \<and> b_start_time (hd (study_blocks example_schedule)) = ''09:00''
   \<and> b_start_time (hd (study_blocks example_schedule))
       \<noteq> requested_start_time (example_preferences\<lparr>p_start_time := Some ''9:00''\<rparr>)
   \<and> generate_optimized_blocks 739507 negative_preferences = Inr negative_schedule
   \<and> map (\<lambda>b. (b_start_time b, b_end_time b)) (study_blocks negative_schedule)
       = [(''09:00'', ''07:20''), (''07:20'', ''07:35''), (''07:35'', ''06:15'')]
   \<and> block_spans (datetime_combine 739507 (9, 0)) (study_blocks negative_schedule)
       = [(1064890620, 1064890520), (1064890520, 1064890535), (1064890535, 1064890455)]"
  using single_digit_hour_run negative_run
  by (simp add: requested_start_time_def example_schedule_def example_blocks_def
        negative_schedule_def datetime_combine_def)

text \<open>
  Claim C1, amended. In every schedule the scheduler returns, each block's \<^verbatim>\<open>start_time\<close>
  is the \<^verbatim>\<open>end_time\<close> of the block before it. The first block starts at the requested clock
  time, printed with two digits for the hour and for the minute: its \<^verbatim>\<open>start_time\<close> parses
  to the same time as the request's and is the same string when the request is written that
  way. The blocks are laid end to end from that time, each ending its own duration after it
  starts; when the requested study and break durations are not negative, no block ends before
  it starts and each block ends no later than any later block starts, so no two blocks overlap.
\<close>

theorem blocks_contiguous_from_start:
  assumes "generate_optimized_blocks today preferences = Inr s"
  shows "(\<forall>i. Suc i < length (study_blocks s) \<longrightarrow>
            b_start_time (study_blocks s ! Suc i) = b_end_time (study_blocks s ! i))
       \<and> (study_blocks s \<noteq> [] \<longrightarrow>
            strptime_HM (b_start_time (hd (study_blocks s)))
              = strptime_HM (requested_start_time preferences)
            \<and> (length (requested_start_time preferences) = 5 \<longrightarrow>
                 b_start_time (hd (study_blocks s)) = requested_start_time preferences))
       \<and> (\<exists>start_time. strptime_HM (requested_start_time preferences) = Some start_time
             \<and> map b_start_time (study_blocks s)
                 = map (\<lambda>p. strftime_HM (fst p))
                     (block_spans (datetime_combine today start_time) (study_blocks s))
             \<and> map b_end_time (study_blocks s)
                 = map (\<lambda>p. strftime_HM (snd p))
                     (block_spans (datetime_combine today start_time) (study_blocks s))
             \<and> (0 \<le> (case p_study_duration preferences of Some d \<Rightarrow> d | None \<Rightarrow> 90)
                  \<and> 0 \<le> (case p_break_duration preferences of Some d \<Rightarrow> d | None \<Rightarrow> 15) \<longrightarrow>
                  (\<forall>p \<in> set (block_spans (datetime_combine today start_time) (study_blocks s)).
                      fst p \<le> snd p)
                  \<and> sorted_wrt (\<lambda>p q. snd p \<le> fst q)
                        (block_spans (datetime_combine today start_time) (study_blocks s))))"
proof -
  from assms obtain hm st where
    parse: "strptime_HM (requested_start_time preferences) = Some hm" and
    loop: "place_all (case p_study_duration preferences of Some d \<Rightarrow> d | None \<Rightarrow> 90)
               (case p_break_duration preferences of Some d \<Rightarrow> d | None \<Rightarrow> 15)
               (order_subjects_by_difficulty (requested_subjects preferences))
               \<lparr>current_datetime = datetime_combine today hm,
                blocks = [], study_total = 0, break_total = 0\<rparr> = Inr st" and
    s: "s = \<lparr>study_blocks = blocks st, total_study_time = study_total st,
          total_break_time = break_total st\<rparr>"
    by (rule blocks_of_run)
  obtain h m where hm: "hm = (h, m)" by (cases hm)
  from parse hm have bounds: "h < 24" "m < 60"
    using strptime_HM_bounds by auto
  from place_all_blocks [OF loop] obtain new where
    new: "blocks st = new" "contiguous new"
      "length new = 2 * length (order_subjects_by_difficulty (requested_subjects preferences)) - 1"
      "order_subjects_by_difficulty (requested_subjects preferences) \<noteq> [] \<longrightarrow>
         b_start_time (hd new) = strftime_HM (datetime_combine today hm)"
    by auto
  have chain: "\<forall>i. Suc i < length (study_blocks s) \<longrightarrow>
            b_start_time (study_blocks s ! Suc i) = b_end_time (study_blocks s ! i)"
    using new(1,2) s by (simp add: contiguous_def successively_conv_nth)
  have first: "b_start_time (hd (study_blocks s)) = two_digits h @ '':'' @ two_digits m"
    if "study_blocks s \<noteq> []"
  proof -
    from that s new(1,3) have "order_subjects_by_difficulty (requested_subjects preferences) \<noteq> []"
      by auto
    with new(4) have "b_start_time (hd new) = strftime_HM (datetime_combine today (h, m))"
      using hm by simp
    then show ?thesis
      using s new(1) bounds by (simp add: strftime_HM_combine)
  qed
  have same_time: "strptime_HM (b_start_time (hd (study_blocks s)))
              = strptime_HM (requested_start_time preferences)" if "study_blocks s \<noteq> []"
    using first [OF that] parse hm strptime_HM_print [OF bounds] by simp
  have same_string: "b_start_time (hd (study_blocks s)) = requested_start_time preferences"
    if "study_blocks s \<noteq> []" "length (requested_start_time preferences) = 5"
    using first [OF that(1)] strptime_HM_canonical [OF parse [unfolded hm] that(2)] by simp
  from place_all_laid_out [OF loop, of "datetime_combine today hm"] s
  have "laid_out (datetime_combine today hm) (study_blocks s)" by simp
  then have strings:
    "map b_start_time (study_blocks s)
       = map (\<lambda>p. strftime_HM (fst p)) (block_spans (datetime_combine today hm) (study_blocks s))"
    "map b_end_time (study_blocks s)
       = map (\<lambda>p. strftime_HM (snd p)) (block_spans (datetime_combine today hm) (study_blocks s))"
    by (simp_all add: laid_out_spans)
  have apart:
    "(\<forall>p \<in> set (block_spans (datetime_combine today hm) (study_blocks s)). fst p \<le> snd p)
     \<and> sorted_wrt (\<lambda>p q. snd p \<le> fst q)
          (block_spans (datetime_combine today hm) (study_blocks s))"
    if "0 \<le> (case p_study_duration preferences of Some d \<Rightarrow> d | None \<Rightarrow> 90)"
       "0 \<le> (case p_break_duration preferences of Some d \<Rightarrow> d | None \<Rightarrow> 15)"
  proof -
    from place_all_nonneg [OF loop that] s
    have nonneg: "\<forall>b \<in> set (study_blocks s). 0 \<le> b_duration b" by simp
    from block_spans_after [OF nonneg] block_spans_disjoint [OF nonneg]
    show ?thesis by blast
  qed
  from parse strings apart have
    "\<exists>start_time. strptime_HM (requested_start_time preferences) = Some start_time
             \<and> map b_start_time (study_blocks s)
                 = map (\<lambda>p. strftime_HM (fst p))
                     (block_spans (datetime_combine today start_time) (study_blocks s))
             \<and> map b_end_time (study_blocks s)
                 = map (\<lambda>p. strftime_HM (snd p))
                     (block_spans (datetime_combine today start_time) (study_blocks s))
             \<and> (0 \<le> (case p_study_duration preferences of Some d \<Rightarrow> d | None \<Rightarrow> 90)
                  \<and> 0 \<le> (case p_break_duration preferences of Some d \<Rightarrow> d | None \<Rightarrow> 15) \<longrightarrow>
                  (\<forall>p \<in> set (block_spans (datetime_combine today start_time) (study_blocks s)).
                      fst p \<le> snd p)
                  \<and> sorted_wrt (\<lambda>p q. snd p \<le> fst q)
                        (block_spans (datetime_combine today start_time) (study_blocks s)))"
    by (intro exI [of _ hm]) blast
  with chain same_time same_string show ?thesis by blast
qed

theorem blocks_contiguous_from_start_witness:
  "generate_optimized_blocks 739507 example_preferences = Inr example_schedule
   \<and> b_start_time (example_blocks ! 1) = b_end_time (example_blocks ! 0)
   \<and> b_start_time (example_blocks ! 2) = b_end_time (example_blocks ! 1)
   \<and> example_blocks \<noteq> []
   \<and> length (requested_start_time example_preferences) = 5
   \<and> b_start_time (hd example_blocks) = requested_start_time example_preferences
   \<and> block_spans (datetime_combine 739507 (9, 0)) example_blocks
       = [(1064890620, 1064890710), (1064890710, 1064890730), (1064890730, 1064890820)]
   \<and> sorted_wrt (\<lambda>p q. snd p \<le> fst q) (block_spans (datetime_combine 739507 (9, 0)) example_blocks)"
proof -
  have run: "generate_optimized_blocks 739507 example_preferences = Inr example_schedule"
    by (rule example_run) simp_all
  have ne: "study_blocks example_schedule \<noteq> []"
    by (simp add: example_schedule_def example_blocks_def)
  have len: "length (requested_start_time example_preferences) = 5"
    by (simp add: requested_start_time_def example_preferences_def)
  have len3: "length (study_blocks example_schedule) = 3"
    by (simp add: example_schedule_def example_blocks_def)
  have parse: "strptime_HM (requested_start_time example_preferences) = Some (9, 0)"
    by (simp add: requested_start_time_def example_preferences_def strptime_0900)
  have pos: "0 \<le> (case p_study_duration example_preferences of Some d \<Rightarrow> d | None \<Rightarrow> 90)"
    "0 \<le> (case p_break_duration example_preferences of Some d \<Rightarrow> d | None \<Rightarrow> 15)"
    by (simp_all add: example_preferences_def)
  from blocks_contiguous_from_start [OF run] have
    chain: "\<And>i. Suc i < length (study_blocks example_schedule) \<Longrightarrow>
       b_start_time (study_blocks example_schedule ! Suc i)
         = b_end_time (study_blocks example_schedule ! i)" and
    first: "b_start_time (hd (study_blocks example_schedule))
         = requested_start_time example_preferences" and
    apart: "sorted_wrt (\<lambda>p q. snd p \<le> fst q)
         (block_spans (datetime_combine 739507 (9, 0)) (study_blocks example_schedule))"
    using ne len parse pos by auto
  from chain [of 0] chain [of 1] len3 have
    "b_start_time (study_blocks example_schedule ! 1) = b_end_time (study_blocks example_schedule ! 0)"
    "b_start_time (study_blocks example_schedule ! 2) = b_end_time (study_blocks example_schedule ! 1)"
    by (simp_all add: numeral_2_eq_2)
  with first run ne len apart show ?thesis
    by (simp add: example_schedule_def example_blocks_def datetime_combine_def)
qed

subsection \<open>Totals\<close>

text \<open>
  Claim C10. In every schedule the scheduler returns, \<^verbatim>\<open>total_study_time\<close> is the sum of the
  durations of the study blocks and \<^verbatim>\<open>total_break_time\<close> the sum of the durations of the
  break blocks.
\<close>

theorem totals_match_blocks:
  assumes "generate_optimized_blocks today preferences = Inr s"
  shows "total_study_time s = sum_list (map b_duration (filter (\<lambda>b. b_type b = Study) (study_blocks s)))
       \<and> total_break_time s = sum_list (map b_duration (filter (\<lambda>b. b_type b = Break) (study_blocks s)))"
proof -
  from assms obtain hm st where
    loop: "place_all (case p_study_duration preferences of Some d \<Rightarrow> d | None \<Rightarrow> 90)
               (case p_break_duration preferences of Some d \<Rightarrow> d | None \<Rightarrow> 15)
               (order_subjects_by_difficulty (requested_subjects preferences))
               \<lparr>current_datetime = datetime_combine today hm,
                blocks = [], study_total = 0, break_total = 0\<rparr> = Inr st" and
    s: "s = \<lparr>study_blocks = blocks st, total_study_time = study_total st,
          total_break_time = break_total st\<rparr>"
    by (rule blocks_of_run)
  from place_all_totals [OF loop] have
    "study_total st = sum_durations Study (blocks st) \<and>
     break_total st = sum_durations Break (blocks st)"
    by (simp add: sum_durations_def)
  then show ?thesis using s by (simp add: sum_durations_def)
qed

theorem totals_match_blocks_witness:
  "generate_optimized_blocks 739507 example_preferences = Inr example_schedule
   \<and> total_study_time example_schedule = 90 + 90
   \<and> total_break_time example_schedule = 20
   \<and> sum_list (map b_duration (filter (\<lambda>b. b_type b = Study) example_blocks)) = 180
   \<and> sum_list (map b_duration (filter (\<lambda>b. b_type b = Break) example_blocks)) = 20"
proof -
  have run: "generate_optimized_blocks 739507 example_preferences = Inr example_schedule"
    by (rule example_run) simp_all
  from totals_match_blocks [OF run] show ?thesis
    using run by (simp add: example_schedule_def example_blocks_def)
qed

subsection \<open>The requested end of day\<close>

text \<open>
  Claim C6. Two requests that differ only in \<^verbatim>\<open>end_time\<close> get the same answer, and a
  schedule is never cut short: \<open>n\<close> subjects always give \<open>2n - 1\<close> blocks, whatever the
  requested end of day.
\<close>

theorem end_time_ignored:
  "generate_optimized_blocks today (preferences\<lparr>p_end_time := e\<rparr>)
     = generate_optimized_blocks today preferences
   \<and> (generate_optimized_blocks today preferences = Inr s \<longrightarrow>
        length (study_blocks s) = 2 * length (requested_subjects preferences) - 1)"
proof -
  have a: "generate_optimized_blocks today (preferences\<lparr>p_end_time := e\<rparr>)
     = generate_optimized_blocks today preferences"
    by (simp add: generate_optimized_blocks_def requested_subjects_def requested_start_time_def)
  have b: "length (study_blocks s) = 2 * length (requested_subjects preferences) - 1"
    if run: "generate_optimized_blocks today preferences = Inr s"
  proof -
    from run obtain hm st where
      loop: "place_all (case p_study_duration preferences of Some d \<Rightarrow> d | None \<Rightarrow> 90)
               (case p_break_duration preferences of Some d \<Rightarrow> d | None \<Rightarrow> 15)
               (order_subjects_by_difficulty (requested_subjects preferences))
               \<lparr>current_datetime = datetime_combine today hm,
                blocks = [], study_total = 0, break_total = 0\<rparr> = Inr st" and
      s: "s = \<lparr>study_blocks = blocks st, total_study_time = study_total st,
          total_break_time = break_total st\<rparr>"
      by (rule blocks_of_run)
    from place_all_blocks [OF loop] s show ?thesis
      by (auto simp: length_order_subjects)
  qed
  from a b show ?thesis by blast
qed


theorem end_time_ignored_witness:
  "generate_optimized_blocks 739507 (example_preferences\<lparr>p_end_time := Some ''10:00''\<rparr>)
     = Inr example_schedule
   \<and> length (study_blocks example_schedule) = 2 * 2 - 1
   \<and> b_end_time (last (study_blocks example_schedule)) = ''12:20''"
proof -
  have run: "generate_optimized_blocks 739507 example_preferences = Inr example_schedule"
    by (rule example_run) simp_all
  from end_time_ignored [where today = 739507 and preferences = example_preferences
      and e = "Some ''10:00''" and s = example_schedule] run
  show ?thesis
    by (simp add: example_schedule_def example_blocks_def requested_subjects_def
          example_preferences_def)
qed

subsection \<open>The example request, end to end\<close>

text \<open>
  Claim C2. On any day, the request with study duration 90, break duration 15, subjects Math
  and English and start time 09:00 gives exactly three blocks: Math 09:00 to 10:30 lasting 90
  (multiplier 1.0 at hour 9, no afternoon penalty before hour 12), a break 10:30 to 10:50
  lasting 20 (the duration 90 just placed raises 15 to min(15 + 5, 20)), and English 10:50 to
  12:20 lasting 90 (multiplier 1.0 at hour 10).
\<close>

theorem example_schedule_exact:
  assumes "0 \<le> today" and "today < 3652059"
  shows "generate_optimized_blocks today example_preferences = Inr example_schedule
       \<and> duration_multiplier 9 = 1 \<and> duration_multiplier 10 = 1
       \<and> adjust_break_duration 15 90 = min (15 + 5) 20 \<and> adjust_break_duration 15 90 = 20"
  using example_run [OF assms]
  by (simp add: duration_multiplier_def float_1_0_value adjust_break_duration_def)

theorem example_schedule_exact_witness:
  "(0::int) \<le> 739507 \<and> (739507::int) < 3652059
   \<and> generate_optimized_blocks 739507 example_preferences = Inr example_schedule"
  using example_schedule_exact [of 739507] by simp

subsection \<open>Boundary hours of the duration bands\<close>

text \<open>
  Claim C3. At the clock hours 11, 15 and 17, which satisfy the conditions of both bands, the
  first band is the one taken: the multiplier is 1.0 and not 0.9. A subject without the
  afternoon penalty keeps its full base duration of 100 minutes at these hours, where the
  second band would have given 90.
\<close>

theorem boundary_hours_first_band:
  "duration_multiplier 11 = float_1_0 \<and> duration_multiplier 15 = float_1_0
   \<and> duration_multiplier 17 = float_1_0
   \<and> float_1_0 = 1 \<and> float_0_9 = 8106479329266893 / 2 ^ 53 \<and> float_1_0 \<noteq> float_0_9
   \<and> adjust_duration_for_time_and_subject (datetime_combine today (11, 0)) ''History'' 100 = Inr 100
   \<and> adjust_duration_for_time_and_subject (datetime_combine today (15, 0)) ''History'' 100 = Inr 100
   \<and> adjust_duration_for_time_and_subject (datetime_combine today (17, 0)) ''History'' 100 = Inr 100
   \<and> py_int_of_float (py_float_mul 100 float_0_9) = 90"
proof -
  have m: "duration_multiplier 11 = float_1_0" "duration_multiplier 15 = float_1_0"
    "duration_multiplier 17 = float_1_0"
    by (simp_all add: duration_multiplier_def)
  have ne: "float_1_0 \<noteq> float_0_9"
    by (simp add: float_0_9_value float_1_0_value)
  have adj: "adjust_duration_for_time_and_subject (datetime_combine today (h, 0)) ''History'' 100
               = Inr 100" if "h = 11 \<or> h = 15 \<or> h = 17" for h :: nat
  proof -
    from that have "h < 24" by auto
    then have "hour_of (datetime_combine today (h, 0)) = int h"
      by (simp add: hour_of_combine)
    with that show ?thesis
      by (auto simp: adjust_duration_for_time_and_subject_def duration_multiplier_def
            difficulty_History float_of_100 float_100_times_1)
  qed
  from m ne adj [of 11] adj [of 15] adj [of 17] float_1_0_value float_0_9_value
    float_100_times_0_9
  show ?thesis by blast
qed

subsection \<open>Empty subject lists\<close>

lemma order_subjects_Nil: "order_subjects_by_difficulty [] = []"
  by (simp add: order_subjects_by_difficulty_def sorted_reverse_def)

text \<open>
  Claim C5, as stated, fails: with an empty subject list and a well-formed start time the call
  returns a schedule.
\<close>

theorem empty_subjects_returns_schedule:
  "generate_optimized_blocks 739507 empty_subjects_preferences
     = Inr \<lparr>study_blocks = [], total_study_time = 0, total_break_time = 0\<rparr>"
  by (simp add: generate_optimized_blocks_def empty_subjects_preferences_def
        requested_subjects_def requested_start_time_def strptime_0900 order_subjects_Nil)

text \<open>
  Claim C5, amended. A scheduling call whose preferences contain an empty subject list does not
  fail because of it: the list is not replaced by the default subjects, and the call returns
  the schedule with no blocks and zero totals. It fails only when the start time string does
  not parse.
\<close>

theorem empty_subjects_no_failure:
  assumes "p_subjects preferences = Some []"
  shows "generate_optimized_blocks today preferences
           = (case strptime_HM (requested_start_time preferences) of
                None \<Rightarrow> Inl ValueError
              | Some start_time \<Rightarrow>
                  Inr \<lparr>study_blocks = [], total_study_time = 0, total_break_time = 0\<rparr>)"
  using assms
  by (simp add: generate_optimized_blocks_def requested_subjects_def order_subjects_Nil
        split: option.splits)

theorem empty_subjects_no_failure_witness:
  "p_subjects (empty_subjects_preferences\<lparr>p_start_time := None\<rparr>) = Some []
   \<and> generate_optimized_blocks 0 (empty_subjects_preferences\<lparr>p_start_time := None\<rparr>)
       = Inr \<lparr>study_blocks = [], total_study_time = 0, total_break_time = 0\<rparr>"
proof -
  have e: "p_subjects (empty_subjects_preferences\<lparr>p_start_time := None\<rparr>) = Some []"
    by (simp add: empty_subjects_preferences_def)
  from empty_subjects_no_failure [OF e, of 0] show ?thesis
    using e by (simp add: requested_start_time_def empty_subjects_preferences_def strptime_0900)
qed

subsection \<open>Stress keywords in the email analysis\<close>

lemma scan_stress_find:
  "scan_stress ks t c =
     (case find (\<lambda>k. str_in k t) ks of
        None \<Rightarrow> c
      | Some k \<Rightarrow>
          c\<lparr>urgent_count := urgent_count c + 1,
            keywords_found := (if k \<notin> set (keywords_found c)
                               then keywords_found c @ [k] else keywords_found c)\<rparr>)"
  by (induction ks) auto

lemma scan_work_keeps:
  "urgent_count (scan_work ks t c) = urgent_count c
   \<and> keywords_found (scan_work ks t c) = keywords_found c"
  by (induction ks) auto

lemma find_stress_iff:
  "has_stress_keyword (Email e) \<longleftrightarrow> find (\<lambda>k. str_in k (email_text e)) stress_keywords \<noteq> None"
  by (auto simp: has_stress_keyword_def find_None_iff list_ex_iff)

lemma count_email_keywords:
  "urgent_count (count_email env item c)
     = urgent_count c + (if has_stress_keyword item then 1 else 0)
   \<and> (distinct (keywords_found c) \<longrightarrow> distinct (keywords_found (count_email env item c)))
   \<and> length (keywords_found (count_email env item c))
       \<le> length (keywords_found c) + (if has_stress_keyword item then 1 else 0)"
proof (cases item)
  case NotADict
  then show ?thesis by (simp add: count_email_def has_stress_keyword_def)
next
  case (Email e)
  show ?thesis
  proof (cases "find (\<lambda>k. str_in k (email_text e)) stress_keywords")
    case None
    then have "\<not> has_stress_keyword item" using Email by (simp add: find_stress_iff)
    with None Email show ?thesis
      by (simp add: count_email_def Let_def scan_stress_find scan_work_keeps split: option.splits)
  next
    case (Some k)
    then have "has_stress_keyword item" using Email by (simp add: find_stress_iff)
    with Some Email show ?thesis
      by (simp add: count_email_def Let_def scan_stress_find scan_work_keeps split: option.splits)
  qed
qed

lemma fold_count_email_keywords:
  "urgent_count (fold (count_email env) items c)
     = urgent_count c + int (length (filter has_stress_keyword items))
   \<and> (distinct (keywords_found c) \<longrightarrow> distinct (keywords_found (fold (count_email env) items c)))
   \<and> length (keywords_found (fold (count_email env) items c))
       \<le> length (keywords_found c) + length (filter has_stress_keyword items)"
proof (induction items arbitrary: c)
  case Nil
  then show ?case by simp
next
  case (Cons item items)
  from count_email_keywords [of env item c] Cons.IH [of "count_email env item c"]
  show ?case by (auto split: if_splits)
qed


lemma analysis_of_run:
  assumes "analyze_email_content env emails days_back = Inr r"
    and "c = fold (count_email env)
           (recent_emails env (now env - days_back * 86400 * 1000000) emails) initial_counters"
  shows "total_emails r
       = int (length (recent_emails env (now env - days_back * 86400 * 1000000) emails))"
    and "urgent_emails r = urgent_count c" and "work_emails r = work_count c"
    and "stress_keywords_found r = keywords_found c" and "hourly_distribution r = hourly c"
    and "\<exists>peaks. recommend (total_emails r) (urgent_count c) (work_count c) peaks (hourly c)
               = Inr (recommendations r)"
  using assms
  by (auto simp: analyze_email_content_def Let_def split: if_splits sum.splits)

lemma urgent_email_stressed: "has_stress_keyword (Email urgent_deadline_email)"
  by code_simp

lemma urgent_email_first_keyword:
  "find (\<lambda>k. str_in k (email_text urgent_deadline_email)) stress_keywords = Some ''urgent''"
  by code_simp

lemma urgent_email_both:
  "str_in ''urgent'' (email_text urgent_deadline_email)
   \<and> str_in ''deadline'' (email_text urgent_deadline_email)"
  by code_simp

lemma urgent_run:
  "analyze_email_content example_stdlib [Email urgent_deadline_email] 7 = Inr urgent_analysis"
  by code_simp

lemma midnight_email_calm: "\<not> has_stress_keyword (Email midnight_email)"
  by code_simp

text \<open>
  Claim C7. Each kept email whose lowercased subject, body and sender text contains at least
  one stress keyword raises \<^verbatim>\<open>urgent_count\<close> by exactly one, through the first keyword of
  the fixed list that occurs in it, and adds at most that one keyword to
  \<^verbatim>\<open>stress_keywords_found\<close>, and only when it is not there yet; an email without a keyword
  changes neither. So the urgent count of an analysis is the number of kept emails with a
  keyword, and the keywords found have no duplicates and are no more than that number. An
  email containing both "urgent" and "deadline" counts once, under "urgent".
\<close>

theorem stress_keyword_counted_once:
  "(analyze_email_content env emails days_back = Inr r \<longrightarrow>
      urgent_emails r
        = int (length (filter has_stress_keyword
                 (recent_emails env (now env - days_back * 86400 * 1000000) emails)))
      \<and> distinct (stress_keywords_found r)
      \<and> length (stress_keywords_found r)
          \<le> length (filter has_stress_keyword
                 (recent_emails env (now env - days_back * 86400 * 1000000) emails)))
   \<and> (has_stress_keyword (Email email) \<longrightarrow>
        (\<exists>keyword. find (\<lambda>k. str_in k (email_text email)) stress_keywords = Some keyword
           \<and> urgent_count (count_email env (Email email) c) = urgent_count c + 1
           \<and> keywords_found (count_email env (Email email) c)
               = (if keyword \<in> set (keywords_found c) then keywords_found c
                  else keywords_found c @ [keyword])))
   \<and> (\<not> has_stress_keyword item \<longrightarrow>
        urgent_count (count_email env item c) = urgent_count c
        \<and> keywords_found (count_email env item c) = keywords_found c)
   \<and> str_in ''urgent'' (email_text urgent_deadline_email)
   \<and> str_in ''deadline'' (email_text urgent_deadline_email)
   \<and> urgent_count (count_email env (Email urgent_deadline_email) c) = urgent_count c + 1
   \<and> keywords_found (count_email env (Email urgent_deadline_email) initial_counters) = [''urgent'']"
proof -
  have whole: "urgent_emails r
        = int (length (filter has_stress_keyword
                 (recent_emails env (now env - days_back * 86400 * 1000000) emails)))
      \<and> distinct (stress_keywords_found r)
      \<and> length (stress_keywords_found r)
          \<le> length (filter has_stress_keyword
                 (recent_emails env (now env - days_back * 86400 * 1000000) emails))"
    if "analyze_email_content env emails days_back = Inr r"
  proof -
    from analysis_of_run(2,4) [OF that refl]
    have c: "urgent_emails r = urgent_count (fold (count_email env)
           (recent_emails env (now env - days_back * 86400 * 1000000) emails) initial_counters)"
         "stress_keywords_found r = keywords_found (fold (count_email env)
           (recent_emails env (now env - days_back * 86400 * 1000000) emails) initial_counters)"
      by simp_all
    from fold_count_email_keywords
           [of env "recent_emails env (now env - days_back * 86400 * 1000000) emails"
               initial_counters]
    show ?thesis
      unfolding c by (simp add: initial_counters_def)
  qed
  have step: "\<exists>keyword. find (\<lambda>k. str_in k (email_text e)) stress_keywords = Some keyword
           \<and> urgent_count (count_email env (Email e) c) = urgent_count c + 1
           \<and> keywords_found (count_email env (Email e) c)
               = (if keyword \<in> set (keywords_found c) then keywords_found c
                  else keywords_found c @ [keyword])"
    if "has_stress_keyword (Email e)" for e c
  proof -
    from that obtain k where k: "find (\<lambda>k. str_in k (email_text e)) stress_keywords = Some k"
      by (auto simp: find_stress_iff)
    then show ?thesis
      by (simp add: count_email_def Let_def scan_stress_find scan_work_keeps
            split: option.splits)
  qed
  have miss: "urgent_count (count_email env item c) = urgent_count c
        \<and> keywords_found (count_email env item c) = keywords_found c"
    if "\<not> has_stress_keyword item"
  proof (cases item)
    case NotADict
    then show ?thesis by (simp add: count_email_def)
  next
    case (Email e)
    with that have "find (\<lambda>k. str_in k (email_text e)) stress_keywords = None"
      by (simp add: find_stress_iff)
    with Email show ?thesis
      by (simp add: count_email_def Let_def scan_stress_find scan_work_keeps
            split: option.splits)
  qed
  from step [OF urgent_email_stressed, of c] have one:
    "urgent_count (count_email env (Email urgent_deadline_email) c) = urgent_count c + 1"
    by blast
  from step [OF urgent_email_stressed, of initial_counters] urgent_email_first_keyword
  have found: "keywords_found (count_email env (Email urgent_deadline_email) initial_counters)
                 = [''urgent'']"
    by (auto simp: initial_counters_def)
  from whole step [of email c] miss one found urgent_email_both show ?thesis
    by blast
qed

theorem stress_keyword_counted_once_witness:
  "analyze_email_content example_stdlib [Email urgent_deadline_email] 7 = Inr urgent_analysis
   \<and> urgent_emails urgent_analysis = 1
   \<and> distinct (stress_keywords_found urgent_analysis)
   \<and> has_stress_keyword (Email urgent_deadline_email)
   \<and> urgent_count (count_email example_stdlib (Email urgent_deadline_email) initial_counters) = 1
   \<and> \<not> has_stress_keyword (Email midnight_email)
   \<and> urgent_count (count_email example_stdlib (Email midnight_email) initial_counters) = 0"
proof -
  from stress_keyword_counted_once [where env = example_stdlib and emails = "[Email urgent_deadline_email]"
      and days_back = 7 and r = urgent_analysis and email = urgent_deadline_email
      and c = initial_counters and item = "Email midnight_email"]
    urgent_run urgent_email_stressed midnight_email_calm
  show ?thesis
    by (simp add: urgent_analysis_def initial_counters_def)
qed

subsection \<open>Late-night emails\<close>

lemma midnight_run:
  "analyze_email_content example_stdlib [Email midnight_email] 7 = Inr midnight_analysis"
  by code_simp

lemma recommend_late_night:
  "recommend n u w peaks buckets = Inr recs \<Longrightarrow> n > 0 \<Longrightarrow> any_late_hour buckets \<Longrightarrow>
   rec_late_night \<in> set recs"
  by (auto simp: recommend_def Let_def split: sum.splits if_splits)

lemma late_hours_flagged:
  assumes run: "analyze_email_content env emails days_back = Inr r"
    and total: "total_emails r > 0"
    and bucket: "(h, n) \<in> set (hourly_distribution r)"
    and late: "h \<ge> 22 \<or> (1 \<le> h \<and> h \<le> 6)"
  shows "rec_late_night \<in> set (recommendations r)"
proof -
  define c where "c = fold (count_email env)
           (recent_emails env (now env - days_back * 86400 * 1000000) emails) initial_counters"
  from analysis_of_run(5,6) [OF run c_def] obtain peaks where
    h: "hourly_distribution r = hourly c" and
    rec: "recommend (total_emails r) (urgent_count c) (work_count c) peaks (hourly c)
            = Inr (recommendations r)"
    by auto
  from bucket late h have "any_late_hour (hourly c)"
    by (force simp: any_late_hour_def list_ex_iff)
  with rec total show ?thesis
    by (rule recommend_late_night)
qed

text \<open>
  Claim C8 asks for the late-night recommendation whenever an email was kept and some bucket of
  the hourly distribution lies in 22, 23, 0, ..., 6. The code gives it for the hours 22, 23 and
  1 to 6 (\<open>late_hours_flagged\<close>) but not for hour 0: one kept email sent at 00:30 fills the
  bucket of hour 0 and the only recommendation is the one for healthy patterns.
\<close>

theorem midnight_bucket_not_flagged:
  "analyze_email_content example_stdlib [Email midnight_email] 7 = Inr midnight_analysis
   \<and> total_emails midnight_analysis > 0
   \<and> map fst (hourly_distribution midnight_analysis) = [0]
   \<and> recommendations midnight_analysis = [rec_healthy]
   \<and> rec_late_night \<notin> set (recommendations midnight_analysis)"
  using midnight_run
  by (simp add: midnight_analysis_def rec_healthy_def rec_late_night_def)

subsection \<open>Free time fed back as busy time\<close>









lemma simulated_sorted: "sorted (map ev_start simulated_events)"
  by code_simp

lemma simulated_chain: "busy_chain free_day_start simulated_busy"
  by code_simp



lemma fed_back_sorted: "sorted (map ev_start fed_back_events)"
  by code_simp


lemma butlast_simulated:
  "map span_block (butlast simulated_busy) = [\<lparr>fb_start = ''10:00'', fb_end = ''11:30''\<rparr>]"
  by code_simp













end
